theory Spec2Isabelle
  imports Complex_Main
begin

section \<open>Numbers of the Python program\<close>

text \<open>
  The program computes with three kinds of numbers: Python \<open>int\<close>, Python \<open>float\<close> and
  \<open>numpy.float64\<close> (what \<open>row.iloc[i]\<close> and \<open>Series.mean()\<close> return). A double is
  modelled by \<open>fl\<close>: a finite double is idealised as a real number (no rounding, no
  overflow), and \<open>NonFin\<close> stands for any non-finite double (NaN, +Inf or -Inf).
  Arithmetic with a non-finite operand stays non-finite, except \<open>x ** 0\<close>, which is 1.
  (IEEE gives 0 for a finite number divided by an infinity; under this idealisation no
  divisor of the program is infinite: a divisor is a price, a count, or the root of a sum
  of squares, which is NaN as soon as one of its terms is not finite.)
\<close>

datatype fl = Fin real | NonFin

datatype pynum = PyInt int | PyFloat fl | NpFloat fl

datatype error = ZeroDivisionError | IndexError | ValueError

fun to_fl :: "pynum \<Rightarrow> fl" where
  "to_fl (PyInt i) = Fin (of_int i)"
| "to_fl (PyFloat x) = x"
| "to_fl (NpFloat x) = x"

fun is_np :: "pynum \<Rightarrow> bool" where
  "is_np (NpFloat x) = True"
| "is_np (PyInt i) = False"
| "is_np (PyFloat x) = False"

fun fl_add :: "fl \<Rightarrow> fl \<Rightarrow> fl" where
  "fl_add (Fin x) (Fin y) = Fin (x + y)"
| "fl_add NonFin y = NonFin"
| "fl_add (Fin x) NonFin = NonFin"

fun fl_sub :: "fl \<Rightarrow> fl \<Rightarrow> fl" where
  "fl_sub (Fin x) (Fin y) = Fin (x - y)"
| "fl_sub NonFin y = NonFin"
| "fl_sub (Fin x) NonFin = NonFin"

fun fl_mul :: "fl \<Rightarrow> fl \<Rightarrow> fl" where
  "fl_mul (Fin x) (Fin y) = Fin (x * y)"
| "fl_mul NonFin y = NonFin"
| "fl_mul (Fin x) NonFin = NonFin"

text \<open>IEEE division, as numpy performs it: a zero divisor gives Inf or NaN, with a warning only.\<close>

fun fl_div :: "fl \<Rightarrow> fl \<Rightarrow> fl" where
  "fl_div (Fin x) (Fin y) = (if y = 0 then NonFin else Fin (x / y))"
| "fl_div NonFin y = NonFin"
| "fl_div (Fin x) NonFin = NonFin"

fun fl_pow :: "fl \<Rightarrow> nat \<Rightarrow> fl" where
  "fl_pow x 0 = Fin 1"
| "fl_pow (Fin x) (Suc n) = Fin (x ^ Suc n)"
| "fl_pow NonFin (Suc n) = NonFin"

text \<open>
  The type of a float result: \<open>numpy.float64\<close> as soon as one operand is one
  (it subclasses \<open>float\<close>, so its reflected operators win), a Python \<open>float\<close> otherwise.
\<close>

definition wrap :: "pynum \<Rightarrow> pynum \<Rightarrow> fl \<Rightarrow> pynum" where
  "wrap a b v = (if is_np a \<or> is_np b then NpFloat v else PyFloat v)"

fun py_add :: "pynum \<Rightarrow> pynum \<Rightarrow> pynum" where
  "py_add (PyInt i) (PyInt j) = PyInt (i + j)"
| "py_add a b = wrap a b (fl_add (to_fl a) (to_fl b))"

fun py_sub :: "pynum \<Rightarrow> pynum \<Rightarrow> pynum" where
  "py_sub (PyInt i) (PyInt j) = PyInt (i - j)"
| "py_sub a b = wrap a b (fl_sub (to_fl a) (to_fl b))"

fun py_mul :: "pynum \<Rightarrow> pynum \<Rightarrow> pynum" where
  "py_mul (PyInt i) (PyInt j) = PyInt (i * j)"
| "py_mul a b = wrap a b (fl_mul (to_fl a) (to_fl b))"

text \<open>
  True division \<open>a / b\<close>. Between Python numbers a zero divisor raises
  \<open>ZeroDivisionError\<close>; with a \<open>numpy.float64\<close> operand the division is IEEE.
\<close>

definition py_div :: "pynum \<Rightarrow> pynum \<Rightarrow> error + pynum" where
  "py_div a b =
     (if is_np a \<or> is_np b then Inr (NpFloat (fl_div (to_fl a) (to_fl b)))
      else if to_fl b = Fin 0 then Inl ZeroDivisionError
      else Inr (PyFloat (fl_div (to_fl a) (to_fl b))))"

text \<open>\<open>a ** n\<close> for a non-negative \<open>int\<close> exponent.\<close>

fun py_pow :: "pynum \<Rightarrow> nat \<Rightarrow> pynum" where
  "py_pow (PyInt i) n = PyInt (i ^ n)"
| "py_pow (PyFloat x) n = PyFloat (fl_pow x n)"
| "py_pow (NpFloat x) n = NpFloat (fl_pow x n)"

text \<open>
  \<open>math.sqrt\<close> converts its argument to a Python \<open>float\<close> and raises \<open>ValueError\<close> on
  a negative one. NaN and +Inf pass through (no -Inf reaches it in this program: every
  argument is a sum or product of squares).
\<close>

definition math_sqrt :: "pynum \<Rightarrow> error + pynum" where
  "math_sqrt a =
     (case to_fl a of
        Fin x \<Rightarrow> if x < 0 then Inl ValueError else Inr (PyFloat (Fin (sqrt x)))
      | NonFin \<Rightarrow> Inr (PyFloat NonFin))"

text \<open>The builtin \<open>sum\<close>: a left fold of \<open>+\<close> starting from the \<open>int\<close> 0.\<close>

definition py_sum :: "pynum list \<Rightarrow> pynum" where
  "py_sum xs = foldl py_add (PyInt 0) xs"

text \<open>Indexing \<open>xs[i]\<close> and \<open>df.iloc[i]\<close>: a negative index counts from the end.\<close>

definition iloc :: "'a list \<Rightarrow> int \<Rightarrow> error + 'a" where
  "iloc xs i =
     (if 0 \<le> i \<and> i < int (length xs) then Inr (xs ! nat i)
      else if i < 0 \<and> - int (length xs) \<le> i then Inr (xs ! nat (i + int (length xs)))
      else Inl IndexError)"

text \<open>The slice \<open>xs[0:stop]\<close>: a negative stop counts from the end, and both ends are clamped.\<close>

definition slice0 :: "'a list \<Rightarrow> int \<Rightarrow> 'a list" where
  "slice0 xs stop = take (nat (if stop < 0 then stop + int (length xs) else stop)) xs"

text \<open>\<open>range(start, stop, step)\<close> for a positive step.\<close>

definition py_range :: "int \<Rightarrow> int \<Rightarrow> int \<Rightarrow> int list" where
  "py_range start stop step =
     map (\<lambda>k. start + int k * step) [0..<nat ((stop - start + step - 1) div step)]"

section \<open>The analysis object\<close>

text \<open>
  A cell of the price table is a finite price or missing (NaN): \<open>None\<close> is NaN.
  A row is one date; all rows of a DataFrame have the same columns.
  \<open>daily_values\<close> holds Python floats (\<open>tolist()\<close>), finite since they are sums of
  finite prices; \<open>daily_returns\<close> holds what the divisions of line 52 return.
  The comparison table is a DataFrame of doubles indexed by the offsets.
  Attributes that \<open>__init__\<close> has not assigned yet are empty lists or \<open>None\<close>.
\<close>

type_synonym cell = "real option"
type_synonym row = "cell list"

record CompareMetrics =
  portfolio :: "row list"
  daily_returns :: "pynum list"
  daily_values :: "real list"
  myMetric :: "pynum option"
  sharpeRatio :: "pynum option"
  compareMetrics :: "(int \<times> fl \<times> fl) list"
  correlationCoefficient :: "pynum option"

section \<open>Daily returns (lines 20-54)\<close>

text \<open>
  One iteration of the inner loop (lines 38-50) on the state
  \<open>(lastValues, totalROC, numCounted)\<close>. An observed cell is counted in both branches.
\<close>

definition cell_step ::
  "nat \<Rightarrow> cell \<Rightarrow> (nat \<rightharpoonup> real) \<times> pynum \<times> nat \<Rightarrow> (nat \<rightharpoonup> real) \<times> pynum \<times> nat" where
  "cell_step seriesIdx c st =
     (case st of (lastValues, totalROC, numCounted) \<Rightarrow>
        (case lastValues seriesIdx of
           None \<Rightarrow>
             (case c of
                None \<Rightarrow> st
              | Some v \<Rightarrow> (lastValues(seriesIdx \<mapsto> v), totalROC, numCounted + 1))
         | Some prevValue \<Rightarrow>
             (case c of
                None \<Rightarrow> st
              | Some v \<Rightarrow>
                  (lastValues(seriesIdx \<mapsto> v),
                   py_add totalROC
                     (NpFloat (fl_div (fl_sub (Fin v) (Fin prevValue)) (Fin prevValue))),
                   numCounted + 1))))"

text \<open>The inner loop \<open>for seriesIdx in range(len(row.index))\<close>, from index \<open>seriesIdx\<close> on.\<close>

fun series_loop ::
  "nat \<Rightarrow> row \<Rightarrow> (nat \<rightharpoonup> real) \<times> pynum \<times> nat \<Rightarrow> (nat \<rightharpoonup> real) \<times> pynum \<times> nat" where
  "series_loop seriesIdx [] st = st"
| "series_loop seriesIdx (c # cs) st = series_loop (Suc seriesIdx) cs (cell_step seriesIdx c st)"

text \<open>Lines 31-50 for one row: \<open>totalROC = 0\<close>, \<open>numCounted = 0\<close>, then the inner loop.\<close>

definition process_row :: "(nat \<rightharpoonup> real) \<Rightarrow> row \<Rightarrow> (nat \<rightharpoonup> real) \<times> pynum \<times> nat" where
  "process_row lastValues r = series_loop 0 r (lastValues, PyInt 0, 0)"

text \<open>Line 52 for one row: \<open>totalROC / numCounted\<close>.\<close>

definition row_return :: "(nat \<rightharpoonup> real) \<Rightarrow> row \<Rightarrow> error + pynum" where
  "row_return lastValues r =
     (case process_row lastValues r of
        (lastValues', totalROC, numCounted) \<Rightarrow> py_div totalROC (PyInt (int numCounted)))"

text \<open>The outer loop over the dates; the list returned is \<open>dailyReturns\<close>.\<close>

fun days_loop :: "(nat \<rightharpoonup> real) \<Rightarrow> row list \<Rightarrow> error + pynum list" where
  "days_loop lastValues [] = Inr []"
| "days_loop lastValues (r # rows) =
     (case row_return lastValues r of
        Inl e \<Rightarrow> Inl e
      | Inr d \<Rightarrow>
          (case days_loop (fst (process_row lastValues r)) rows of
             Inl e \<Rightarrow> Inl e
           | Inr ds \<Rightarrow> Inr (d # ds)))"

definition calc_daily_returns :: "'a CompareMetrics_scheme \<Rightarrow> error + pynum list" where
  "calc_daily_returns self = days_loop Map.empty (portfolio self)"

section \<open>Daily values (lines 60-61)\<close>

text \<open>\<open>DataFrame.sum(axis=1)\<close> skips NaN: a missing cell adds nothing.\<close>

definition row_sum :: "row \<Rightarrow> real" where
  "row_sum r = sum_list (map (\<lambda>c. case c of None \<Rightarrow> 0 | Some v \<Rightarrow> v) r)"

definition calc_daily_values :: "'a CompareMetrics_scheme \<Rightarrow> real list" where
  "calc_daily_values self = map row_sum (portfolio self)"

section \<open>Burke ratio (lines 72-125)\<close>

text \<open>Line 74 (and line 141): \<open>0.0426 / 252 * adjustedScale\<close>, a Python float.\<close>

definition risk_free :: "nat \<Rightarrow> pynum" where
  "risk_free adjustedScale = PyFloat (Fin (0.0426 / 252 * real adjustedScale))"

text \<open>Lines 106 and 151: \<open>((1 + avgDailyRet) ** adjustedScale) - 1\<close>.\<close>

definition compound :: "pynum \<Rightarrow> nat \<Rightarrow> pynum" where
  "compound avgDailyRet adjustedScale =
     py_sub (py_pow (py_add (PyInt 1) avgDailyRet) adjustedScale) (PyInt 1)"

text \<open>Lines 103 and 150: \<open>sum(relevantDailyRets) / len(relevantDailyRets)\<close>.\<close>

definition mean_of :: "pynum list \<Rightarrow> error + pynum" where
  "mean_of relevantDailyRets =
     py_div (py_sum relevantDailyRets) (PyInt (int (length relevantDailyRets)))"

text \<open>
  The loop of lines 90-93 over the given column indices, on the state
  \<open>(numCounted, cumReturns)\<close>. The cells are numpy doubles, so the division is IEEE.
\<close>

fun burke_loop :: "row \<Rightarrow> row \<Rightarrow> nat list \<Rightarrow> nat \<times> pynum \<Rightarrow> error + nat \<times> pynum" where
  "burke_loop targetDate initialDate [] st = Inr st"
| "burke_loop targetDate initialDate (seriesIdx # rest) st =
     (case iloc targetDate (int seriesIdx) of
        Inl e \<Rightarrow> Inl e
      | Inr None \<Rightarrow> burke_loop targetDate initialDate rest st
      | Inr (Some t) \<Rightarrow>
          (case iloc initialDate (int seriesIdx) of
             Inl e \<Rightarrow> Inl e
           | Inr None \<Rightarrow> burke_loop targetDate initialDate rest st
           | Inr (Some i0) \<Rightarrow>
               burke_loop targetDate initialDate rest
                 (fst st + 1,
                  py_add (snd st) (NpFloat (fl_div (fl_sub (Fin t) (Fin i0)) (Fin i0))))))"

text \<open>Lines 82-106: the period return \<open>returns\<close>, by either branch.\<close>

definition my_metric_returns ::
  "'a CompareMetrics_scheme \<Rightarrow> int \<Rightarrow> row \<Rightarrow> nat \<Rightarrow> error + pynum" where
  "my_metric_returns self burkeRatioIdx targetDate adjustedScale =
     (if int adjustedScale \<le> burkeRatioIdx + 1 then
        (let initDateIdx = burkeRatioIdx - int adjustedScale + 1 in
         case iloc (portfolio self) initDateIdx of
           Inl e \<Rightarrow> Inl e
         | Inr initialDate \<Rightarrow>
             (case burke_loop targetDate initialDate [0..<length initialDate] (0, PyInt 0) of
                Inl e \<Rightarrow> Inl e
              | Inr (numCounted, cumReturns) \<Rightarrow> py_div cumReturns (PyInt (int numCounted))))
      else
        (let relevantDailyRets = slice0 (daily_returns self) (burkeRatioIdx + 1) in
         case mean_of relevantDailyRets of
           Inl e \<Rightarrow> Inl e
         | Inr avgDailyRet \<Rightarrow> Inr (compound avgDailyRet adjustedScale)))"

text \<open>Lines 74-109: \<open>rpMinusrf\<close>, the excess return.\<close>

definition my_metric_rpMinusrf ::
  "'a CompareMetrics_scheme \<Rightarrow> int \<Rightarrow> nat \<Rightarrow> error + pynum" where
  "my_metric_rpMinusrf self daysin adjustedScale =
     (let riskFreeReturnRate = risk_free adjustedScale;
          burkeRatioIdx = int (length (portfolio self)) - 1 - daysin in
      case iloc (portfolio self) burkeRatioIdx of
        Inl e \<Rightarrow> Inl e
      | Inr targetDate \<Rightarrow>
          (case my_metric_returns self burkeRatioIdx targetDate adjustedScale of
             Inl e \<Rightarrow> Inl e
           | Inr returns \<Rightarrow> Inr (py_sub returns riskFreeReturnRate)))"

text \<open>The builtin \<open>max\<close> of a list: \<open>ValueError\<close> on the empty list.\<close>

fun py_max :: "real list \<Rightarrow> error + real" where
  "py_max [] = Inl ValueError"
| "py_max (x # xs) = Inr (foldl max x xs)"

text \<open>
  Lines 114-122: \<open>denom\<close>. The daily values are Python floats, so a zero maximum
  raises \<open>ZeroDivisionError\<close> in the first drawdown.
\<close>

definition my_metric_denom :: "'a CompareMetrics_scheme \<Rightarrow> int \<Rightarrow> error + pynum" where
  "my_metric_denom self burkeRatioIdx =
     (let sumValues = slice0 (daily_values self) (burkeRatioIdx + 1) in
      case py_max sumValues of
        Inl e \<Rightarrow> Inl e
      | Inr maximum \<Rightarrow>
          if maximum = 0 then Inl ZeroDivisionError
          else
            (let drawdowns = map (\<lambda>xi. (xi - maximum) / maximum) sumValues;
                 drawdowns2 = map (\<lambda>xi. xi ^ 2) drawdowns
             in math_sqrt (PyFloat (Fin (sum_list drawdowns2)))))"

text \<open>The whole method: line 73 overwrites the argument \<open>adjustedScale\<close> with 252.\<close>

definition my_metric :: "'a CompareMetrics_scheme \<Rightarrow> int \<Rightarrow> nat \<Rightarrow> error + pynum" where
  "my_metric self daysin adjustedScale0 =
     (let adjustedScale = 252;
          burkeRatioIdx = int (length (portfolio self)) - 1 - daysin in
      case my_metric_rpMinusrf self daysin adjustedScale of
        Inl e \<Rightarrow> Inl e
      | Inr rpMinusrf \<Rightarrow>
          (case my_metric_denom self burkeRatioIdx of
             Inl e \<Rightarrow> Inl e
           | Inr denom \<Rightarrow> py_div rpMinusrf denom))"

section \<open>Sharpe ratio (lines 137-159)\<close>

text \<open>Line 147: \<open>self.daily_returns[0: len(self.daily_returns) - daysin]\<close>.\<close>

definition sharpe_relevant :: "'a CompareMetrics_scheme \<Rightarrow> int \<Rightarrow> pynum list" where
  "sharpe_relevant self daysin =
     slice0 (daily_returns self) (int (length (daily_returns self)) - daysin)"

text \<open>Lines 147-151: \<open>avgPeriodRet\<close>.\<close>

definition sharpe_avgPeriodRet ::
  "'a CompareMetrics_scheme \<Rightarrow> int \<Rightarrow> nat \<Rightarrow> error + pynum" where
  "sharpe_avgPeriodRet self daysin adjustedScale =
     (case mean_of (sharpe_relevant self daysin) of
        Inl e \<Rightarrow> Inl e
      | Inr avgDailyRet \<Rightarrow> Inr (compound avgDailyRet adjustedScale))"

text \<open>Lines 154-155: \<open>stdev\<close>, from the same \<open>avgDailyRet\<close>.\<close>

definition sharpe_stdev ::
  "'a CompareMetrics_scheme \<Rightarrow> int \<Rightarrow> nat \<Rightarrow> error + pynum" where
  "sharpe_stdev self daysin adjustedScale =
     (let relevantDailyRets = sharpe_relevant self daysin in
      case mean_of relevantDailyRets of
        Inl e \<Rightarrow> Inl e
      | Inr avgDailyRet \<Rightarrow>
          (let sumDiff2 = py_sum (map (\<lambda>xi. py_pow (py_sub xi avgDailyRet) 2) relevantDailyRets) in
           case py_div sumDiff2 (PyInt (int (length relevantDailyRets))) of
             Inl e \<Rightarrow> Inl e
           | Inr q \<Rightarrow>
               (case math_sqrt q of
                  Inl e \<Rightarrow> Inl e
                | Inr sq \<Rightarrow> Inr (py_mul sq (PyInt (int adjustedScale))))))"

text \<open>Lines 141 and 157: the numerator \<open>avgPeriodRet - riskFreeReturnRate\<close>.\<close>

definition sharpe_excess :: "'a CompareMetrics_scheme \<Rightarrow> int \<Rightarrow> nat \<Rightarrow> error + pynum" where
  "sharpe_excess self daysin adjustedScale =
     (let riskFreeReturnRate = risk_free adjustedScale in
      case sharpe_avgPeriodRet self daysin adjustedScale of
        Inl e \<Rightarrow> Inl e
      | Inr avgPeriodRet \<Rightarrow> Inr (py_sub avgPeriodRet riskFreeReturnRate))"

definition sharpe_ratio :: "'a CompareMetrics_scheme \<Rightarrow> int \<Rightarrow> nat \<Rightarrow> error + pynum" where
  "sharpe_ratio self daysin adjustedScale =
     (case sharpe_excess self daysin adjustedScale of
        Inl e \<Rightarrow> Inl e
      | Inr excess \<Rightarrow>
          (case sharpe_stdev self daysin adjustedScale of
             Inl e \<Rightarrow> Inl e
           | Inr stdev \<Rightarrow> py_div excess stdev))"

section \<open>The sweep (lines 166-178)\<close>

text \<open>
  The loop of lines 174-176 over the offsets, then the DataFrame of line 178:
  one row \<open>(offset, Sharpe, Burke)\<close> per offset, in the order of the offsets.
\<close>

fun compare_loop :: "'a CompareMetrics_scheme \<Rightarrow> int list \<Rightarrow> error + (int \<times> fl \<times> fl) list" where
  "compare_loop self [] = Inr []"
| "compare_loop self (i # rest) =
     (case sharpe_ratio self i 252 of
        Inl e \<Rightarrow> Inl e
      | Inr sharpe \<Rightarrow>
          (case my_metric self i 252 of
             Inl e \<Rightarrow> Inl e
           | Inr burke \<Rightarrow>
               (case compare_loop self rest of
                  Inl e \<Rightarrow> Inl e
                | Inr tbl \<Rightarrow> Inr ((i, to_fl sharpe, to_fl burke) # tbl))))"

definition numGenerate :: "int list" where
  "numGenerate = py_range 1 800 15"

definition compare_metrics :: "'a CompareMetrics_scheme \<Rightarrow> error + (int \<times> fl \<times> fl) list" where
  "compare_metrics self = compare_loop self numGenerate"

section \<open>Correlation coefficient (lines 185-204)\<close>

text \<open>
  \<open>Series.mean()\<close> leaves NaN entries out and is NaN when nothing is left. (An
  infinite entry makes the mean non-finite instead; the deviation of that entry is NaN
  either way, so the sums below are non-finite in both cases.)
\<close>

definition series_mean :: "fl list \<Rightarrow> fl" where
  "series_mean xs =
     (let kept = concat (map (\<lambda>x. case x of Fin v \<Rightarrow> [v] | NonFin \<Rightarrow> []) xs) in
      if kept = [] then NonFin else Fin (sum_list kept / real (length kept)))"

text \<open>The loop of lines 198-201 on the state \<open>(sumdXdY, sumdX2, sumdY2)\<close>.\<close>

fun corr_loop ::
  "fl \<Rightarrow> fl \<Rightarrow> (fl \<times> fl) list \<Rightarrow> pynum \<times> pynum \<times> pynum \<Rightarrow> pynum \<times> pynum \<times> pynum" where
  "corr_loop averageX averageY [] st = st"
| "corr_loop averageX averageY ((x, y) # rest) (sumdXdY, sumdX2, sumdY2) =
     corr_loop averageX averageY rest
       (py_add sumdXdY (NpFloat (fl_mul (fl_sub x averageX) (fl_sub y averageY))),
        py_add sumdX2 (NpFloat (fl_pow (fl_sub x averageX) 2)),
        py_add sumdY2 (NpFloat (fl_pow (fl_sub y averageY) 2)))"

definition get_correlation_coefficient :: "'a CompareMetrics_scheme \<Rightarrow> error + pynum" where
  "get_correlation_coefficient self =
     (let xValues = map (\<lambda>(i, sharpe, burke). sharpe) (compareMetrics self);
          yValues = map (\<lambda>(i, sharpe, burke). burke) (compareMetrics self);
          averageX = series_mean xValues;
          averageY = series_mean yValues in
      case corr_loop averageX averageY (zip xValues yValues) (PyInt 0, PyInt 0, PyInt 0) of
        (sumdXdY, sumdX2, sumdY2) \<Rightarrow>
          (case math_sqrt (py_mul sumdX2 sumdY2) of
             Inl e \<Rightarrow> Inl e
           | Inr sq \<Rightarrow> py_div sumdXdY sq))"

section \<open>Construction (lines 6-13)\<close>

definition init :: "row list \<Rightarrow> error + CompareMetrics" where
  "init table =
     (let self0 = \<lparr>portfolio = table, daily_returns = [], daily_values = [],
                   myMetric = None, sharpeRatio = None, compareMetrics = [],
                   correlationCoefficient = None\<rparr> in
      case calc_daily_returns self0 of
        Inl e \<Rightarrow> Inl e
      | Inr ds \<Rightarrow>
          (let self1 = self0\<lparr>daily_returns := ds\<rparr>;
               self2 = self1\<lparr>daily_values := calc_daily_values self1\<rparr> in
           case my_metric self2 0 252 of
             Inl e \<Rightarrow> Inl e
           | Inr burke \<Rightarrow>
               (let self3 = self2\<lparr>myMetric := Some burke\<rparr> in
                case sharpe_ratio self3 0 252 of
                  Inl e \<Rightarrow> Inl e
                | Inr sharpe \<Rightarrow>
                    (let self4 = self3\<lparr>sharpeRatio := Some sharpe\<rparr> in
                     case compare_metrics self4 of
                       Inl e \<Rightarrow> Inl e
                     | Inr tbl \<Rightarrow>
                         (let self5 = self4\<lparr>compareMetrics := tbl\<rparr> in
                          case get_correlation_coefficient self5 of
                            Inl e \<Rightarrow> Inl e
                          | Inr r \<Rightarrow> Inr (self5\<lparr>correlationCoefficient := Some r\<rparr>))))))"

section \<open>Notions of the specification\<close>

text \<open>The number of observed (non-missing) cells of a row.\<close>

definition observed_count :: "row \<Rightarrow> nat" where
  "observed_count r = length (filter (\<lambda>c. c \<noteq> None) r)"

text \<open>
  The percent changes of a row: one for each asset that has a prior observed price
  (in \<open>lastValues\<close>, as it is when the row starts) and an observed current price.
\<close>

fun pct_changes :: "(nat \<rightharpoonup> real) \<Rightarrow> nat \<Rightarrow> row \<Rightarrow> real list" where
  "pct_changes lastValues seriesIdx [] = []"
| "pct_changes lastValues seriesIdx (c # cs) =
     (case (lastValues seriesIdx, c) of
        (Some prevValue, Some v) \<Rightarrow> [(v - prevValue) / prevValue]
      | _ \<Rightarrow> []) @ pct_changes lastValues (Suc seriesIdx) cs"

text \<open>The arithmetic mean and the population standard deviation (division by the count).\<close>

definition mean :: "real list \<Rightarrow> real" where
  "mean xs = sum_list xs / real (length xs)"

definition populationStdev :: "real list \<Rightarrow> real" where
  "populationStdev xs = sqrt (sum_list (map (\<lambda>x. (x - mean xs) ^ 2) xs) / real (length xs))"

text \<open>The pairs \<open>(target, init)\<close> of the assets observed in both of two rows.\<close>

fun both_observed :: "row \<Rightarrow> row \<Rightarrow> (real \<times> real) list" where
  "both_observed (Some t # ts) (Some i # is) = (t, i) # both_observed ts is"
| "both_observed (c # ts) (d # is) = both_observed ts is"
| "both_observed ts is = []"

text \<open>
  The drawdown denominator of a range of daily values: the square root of the sum of the
  squared drawdowns \<open>(v - peak) / peak\<close>, the peak being the maximum of the range.
\<close>

definition drawdown_denom :: "real list \<Rightarrow> real" where
  "drawdown_denom vs =
     sqrt (sum_list (map (\<lambda>v. ((v - Max (set vs)) / Max (set vs)) ^ 2) vs))"

text \<open>
  An example object for the sweep: 800 dates of one asset at the constant price 1, with
  the daily returns and daily values of that table.
\<close>

definition constant_prices :: CompareMetrics where
  "constant_prices =
     \<lparr>portfolio = replicate 800 [Some 1],
      daily_returns = PyFloat (Fin 0) # replicate 799 (NpFloat (Fin 0)),
      daily_values = replicate 800 1,
      myMetric = None, sharpeRatio = None,
      compareMetrics = [], correlationCoefficient = None\<rparr>"

text \<open>
  The Pearson coefficient of two series:
  \<open>\<Sum>(x - mean x)(y - mean y) / sqrt (\<Sum>(x - mean x)\<^sup>2 * \<Sum>(y - mean y)\<^sup>2)\<close>.
  A series is constant when all its entries are equal.
\<close>

definition sq_devs :: "real list \<Rightarrow> real" where
  "sq_devs xs = sum_list (map (\<lambda>x. (x - mean xs) ^ 2) xs)"

definition dev_products :: "real list \<Rightarrow> real list \<Rightarrow> real" where
  "dev_products xs ys = sum_list (map (\<lambda>(x, y). (x - mean xs) * (y - mean ys)) (zip xs ys))"

definition pearson :: "real list \<Rightarrow> real list \<Rightarrow> real" where
  "pearson xs ys = dev_products xs ys / sqrt (sq_devs xs * sq_devs ys)"

definition constant_series :: "real list \<Rightarrow> bool" where
  "constant_series xs \<longleftrightarrow> (\<forall>x\<in>set xs. x = hd xs)"

section \<open>Facts about the numbers\<close>

lemma to_fl_wrap [simp]: "to_fl (wrap a b v) = v"
  by (simp add: wrap_def)

lemma to_fl_py_add: "to_fl (py_add a b) = fl_add (to_fl a) (to_fl b)"
  by (cases a; cases b) (simp_all add: wrap_def)

lemma to_fl_py_sub: "to_fl (py_sub a b) = fl_sub (to_fl a) (to_fl b)"
  by (cases a; cases b) (simp_all add: wrap_def)

lemma to_fl_py_mul: "to_fl (py_mul a b) = fl_mul (to_fl a) (to_fl b)"
  by (cases a; cases b) (simp_all add: wrap_def)

lemma fl_pow_Fin: "fl_pow (Fin x) n = Fin (x ^ n)"
  by (cases n) simp_all

lemma to_fl_py_pow: "to_fl (py_pow a n) = fl_pow (to_fl a) n"
  by (cases a) (simp_all add: fl_pow_Fin)

lemma to_fl_compound:
  "to_fl a = Fin x \<Longrightarrow> to_fl (compound a n) = Fin ((1 + x) ^ n - 1)"
  by (simp add: compound_def to_fl_py_sub to_fl_py_pow to_fl_py_add fl_pow_Fin)

lemma py_div_fin:
  assumes "to_fl a = Fin x" and "to_fl b = Fin y" and "y \<noteq> 0"
  shows "\<exists>q. py_div a b = Inr q \<and> to_fl q = Fin (x / y)"
  using assms by (simp add: py_div_def)

lemma to_fl_foldl_add:
  "to_fl a = Fin x \<Longrightarrow> map to_fl xs = map Fin rs \<Longrightarrow>
     to_fl (foldl py_add a xs) = Fin (x + sum_list rs)"
proof (induction xs arbitrary: a x rs)
  case Nil
  then show ?case by simp
next
  case (Cons y ys)
  then obtain r rs' where rs: "rs = r # rs'" "to_fl y = Fin r" "map to_fl ys = map Fin rs'"
    by (cases rs) auto
  have "to_fl (py_add a y) = Fin (x + r)" using Cons.prems(1) rs(2) by (simp add: to_fl_py_add)
  from Cons.IH[OF this rs(3)] rs(1) show ?case by (simp add: add.assoc)
qed

lemma to_fl_py_sum: "map to_fl xs = map Fin rs \<Longrightarrow> to_fl (py_sum xs) = Fin (sum_list rs)"
  using to_fl_foldl_add[of "PyInt 0" 0 xs rs] by (simp add: py_sum_def)

lemma mean_of_fin:
  assumes "map to_fl xs = map Fin rs" and "xs \<noteq> []"
  shows "\<exists>m. mean_of xs = Inr m \<and> to_fl m = Fin (mean rs)"
proof -
  have len: "length rs = length xs" using assms(1) by (metis length_map)
  have "real (length xs) \<noteq> 0" using assms(2) by simp
  from py_div_fin[OF to_fl_py_sum[OF assms(1)], of "PyInt (int (length xs))" "real (length xs)", OF _ this]
  show ?thesis by (simp add: mean_of_def mean_def len)
qed

lemma is_np_wrap [simp]: "is_np (wrap a b v) \<longleftrightarrow> is_np a \<or> is_np b"
  by (simp add: wrap_def)

lemma is_np_py_add: "is_np (py_add a b) \<longleftrightarrow> is_np a \<or> is_np b"
  by (cases a; cases b) (simp_all add: wrap_def)

lemma iloc_nat: "k < length xs \<Longrightarrow> iloc xs (int k) = Inr (xs ! k)"
  by (simp add: iloc_def)

lemma iloc_in_range: "0 \<le> i \<Longrightarrow> i < int (length xs) \<Longrightarrow> iloc xs i = Inr (xs ! nat i)"
  by (simp add: iloc_def)

lemma slice0_take: "0 \<le> k \<Longrightarrow> slice0 xs k = take (nat k) xs"
  by (simp add: slice0_def)

lemma is_np_py_sub: "is_np (py_sub a b) \<longleftrightarrow> is_np a \<or> is_np b"
  by (cases a; cases b) simp_all

lemma is_np_py_pow: "is_np (py_pow a n) \<longleftrightarrow> is_np a"
  by (cases a) simp_all

lemma is_np_compound: "is_np (compound a n) \<longleftrightarrow> is_np a"
  by (simp add: compound_def is_np_py_sub is_np_py_pow is_np_py_add)

lemma is_np_foldl_add: "is_np (foldl py_add a xs) \<longleftrightarrow> is_np a \<or> (\<exists>x\<in>set xs. is_np x)"
  by (induction xs arbitrary: a) (auto simp: is_np_py_add)

lemma is_np_py_sum: "is_np (py_sum xs) \<longleftrightarrow> (\<exists>x\<in>set xs. is_np x)"
  by (simp add: py_sum_def is_np_foldl_add)

lemma py_div_np:
  "is_np a \<or> is_np b \<Longrightarrow> py_div a b = Inr (NpFloat (fl_div (to_fl a) (to_fl b)))"
  by (auto simp: py_div_def)

lemma mean_of_np: "mean_of xs = Inr m \<Longrightarrow> is_np m \<longleftrightarrow> (\<exists>x\<in>set xs. is_np x)"
  by (auto simp: mean_of_def py_div_def is_np_py_sum split: if_splits)

section \<open>Facts about the daily returns\<close>

lemma observed_count_Cons:
  "observed_count (c # cs) = (if c = None then 0 else 1) + observed_count cs"
  by (simp add: observed_count_def)

lemma observed_count_zero: "observed_count r = 0 \<longleftrightarrow> (\<forall>c\<in>set r. c = None)"
  by (simp add: observed_count_def filter_empty_conv)

lemma series_loop_count:
  "snd (snd (series_loop i cs st)) = snd (snd st) + observed_count cs"
  by (induction cs arbitrary: i st)
     (auto simp: cell_step_def observed_count_def split: prod.splits option.splits)

lemma series_loop_unobserved: "observed_count cs = 0 \<Longrightarrow> series_loop i cs st = st"
  by (induction cs arbitrary: i st)
     (auto simp: cell_step_def observed_count_Cons split: prod.splits option.splits if_splits)

lemma pct_changes_cong:
  "(\<And>j. i \<le> j \<Longrightarrow> lv j = lv' j) \<Longrightarrow> pct_changes lv i cs = pct_changes lv' i cs"
  by (induction cs arbitrary: i) auto

lemma series_loop_total:
  assumes "\<forall>j\<ge>i. lv j \<noteq> Some 0" and "to_fl t = Fin a"
  shows "to_fl (fst (snd (series_loop i cs (lv, t, n)))) = Fin (a + sum_list (pct_changes lv i cs))"
  using assms
proof (induction cs arbitrary: i lv t n a)
  case Nil
  then show ?case by simp
next
  case (Cons c cs)
  show ?case
  proof (cases c)
    case None
    have "\<forall>j\<ge>Suc i. lv j \<noteq> Some 0" using Cons.prems(1) by auto
    from Cons.IH[OF this Cons.prems(2)] None show ?thesis
      by (simp add: cell_step_def split: option.splits)
  next
    case (Some v)
    have nz: "\<forall>j\<ge>Suc i. (lv(i \<mapsto> v)) j \<noteq> Some 0" using Cons.prems(1) by auto
    have cg: "pct_changes (lv(i \<mapsto> v)) (Suc i) cs = pct_changes lv (Suc i) cs"
      by (rule pct_changes_cong) simp
    show ?thesis
    proof (cases "lv i")
      case None
      have ih: "to_fl (fst (snd (series_loop (Suc i) cs (lv(i \<mapsto> v), t, Suc n))))
                = Fin (a + sum_list (pct_changes lv (Suc i) cs))"
        using Cons.IH[OF nz Cons.prems(2), of "Suc n"] unfolding cg .
      have "cell_step i c (lv, t, n) = (lv(i \<mapsto> v), t, Suc n)"
        using None \<open>c = Some v\<close> by (simp add: cell_step_def)
      then show ?thesis using ih None \<open>c = Some v\<close> by simp
    next
      case (Some p)
      then have p0: "p \<noteq> 0" using Cons.prems(1) by auto
      let ?t = "py_add t (NpFloat (fl_div (fl_sub (Fin v) (Fin p)) (Fin p)))"
      have "to_fl ?t = Fin (a + (v - p) / p)"
        using p0 Cons.prems(2) by (simp add: to_fl_py_add)
      from Cons.IH[OF nz this, of "Suc n"]
      have ih: "to_fl (fst (snd (series_loop (Suc i) cs (lv(i \<mapsto> v), ?t, Suc n))))
                = Fin (a + (v - p) / p + sum_list (pct_changes lv (Suc i) cs))"
        unfolding cg .
      have "cell_step i c (lv, t, n) = (lv(i \<mapsto> v), ?t, Suc n)"
        using Some \<open>c = Some v\<close> by (simp add: cell_step_def)
      then show ?thesis using ih Some \<open>c = Some v\<close> by (simp add: add.assoc)
    qed
  qed
qed

lemma series_loop_fresh:
  "\<forall>j\<ge>i. lv j = None \<Longrightarrow> fst (snd (series_loop i cs (lv, t, n))) = t"
  by (induction cs arbitrary: i lv n) (auto simp: cell_step_def split: option.splits)

lemma process_row_count: "snd (snd (process_row lv r)) = observed_count r"
  by (simp add: process_row_def series_loop_count)

lemma row_return_error:
  "row_return lv r = Inl e \<longleftrightarrow> e = ZeroDivisionError \<and> observed_count r = 0"
proof (cases "observed_count r = 0")
  case True
  then have "process_row lv r = (lv, PyInt 0, 0)"
    by (simp add: process_row_def series_loop_unobserved)
  with True show ?thesis by (auto simp: row_return_def py_div_def)
next
  case False
  obtain lv' t n where p: "process_row lv r = (lv', t, n)" by (cases "process_row lv r")
  with process_row_count[of lv r] have "n = observed_count r" by simp
  with False p show ?thesis by (auto simp: row_return_def py_div_def)
qed

lemma days_loop_error:
  "days_loop lv rows = Inl e \<longleftrightarrow> e = ZeroDivisionError \<and> (\<exists>r\<in>set rows. observed_count r = 0)"
proof (induction rows arbitrary: lv)
  case Nil
  then show ?case by simp
next
  case (Cons r rows)
  show ?case
  proof (cases "row_return lv r")
    case (Inl e')
    then show ?thesis using row_return_error[of lv r e'] by auto
  next
    case (Inr d)
    then have "observed_count r \<noteq> 0" using row_return_error[of lv r ZeroDivisionError] by auto
    with Inr Cons.IH[of "fst (process_row lv r)"] show ?thesis
      by (auto split: sum.splits)
  qed
qed

lemma days_loop_length: "days_loop lv rows = Inr ds \<Longrightarrow> length ds = length rows"
  by (induction rows arbitrary: lv ds) (auto split: sum.splits)

lemma row_return_first:
  "0 < observed_count r \<Longrightarrow> row_return Map.empty r = Inr (PyFloat (Fin 0))"
proof -
  assume pos: "0 < observed_count r"
  obtain lv' t n where p: "process_row Map.empty r = (lv', t, n)" by (cases "process_row Map.empty r")
  have "t = PyInt 0" using series_loop_fresh[of 0 Map.empty r "PyInt 0" 0] p
    by (simp add: process_row_def)
  moreover have "n = observed_count r" using process_row_count[of Map.empty r] p by simp
  ultimately show ?thesis using p pos by (simp add: row_return_def py_div_def)
qed

lemma row_return_value:
  assumes "\<forall>j. lv j \<noteq> Some 0" and "0 < observed_count r"
  shows "\<exists>d. row_return lv r = Inr d \<and>
             to_fl d = Fin (sum_list (pct_changes lv 0 r) / real (observed_count r))"
proof -
  obtain lv' t n where p: "process_row lv r = (lv', t, n)" by (cases "process_row lv r")
  have n: "n = observed_count r" using process_row_count[of lv r] p by simp
  have "to_fl t = Fin (0 + sum_list (pct_changes lv 0 r))"
    using series_loop_total[of 0 lv "PyInt 0" 0 r 0] assms(1) p by (simp add: process_row_def)
  then show ?thesis using p n assms(2) by (auto simp: row_return_def py_div_def)
qed


section \<open>Claims about the daily returns\<close>

text \<open>
  C1, as the code has it. The return of a row is the sum of the percent changes of the
  row divided by the number of counted assets, and an observed cell with no prior observed
  price records its price, adds nothing to the sum and \<^emph>\<open>does\<close> increment the count
  (line 44). So the count of a row is the number of its observed cells, and the return of
  the very first row is 0.0 as soon as the row has an observed cell: it is not undefined.
  (Prior prices are taken non-zero, so that every percent change is finite.)
\<close>

theorem daily_return_counts_every_observed_cell:
  assumes "\<forall>j. lastValues j \<noteq> Some 0" and "0 < observed_count r"
  shows "(lastValues i = None \<longrightarrow>
            cell_step i (Some v) (lastValues, t, n) = (lastValues(i \<mapsto> v), t, n + 1))
       \<and> snd (snd (process_row lastValues r)) = observed_count r
       \<and> (\<exists>d. row_return lastValues r = Inr d \<and>
               to_fl d = Fin (sum_list (pct_changes lastValues 0 r) / real (observed_count r)))
       \<and> row_return Map.empty r = Inr (PyFloat (Fin 0))
       \<and> (\<forall>ds. calc_daily_returns (self\<lparr>portfolio := r # rows\<rparr>) = Inr ds
               \<longrightarrow> hd ds = PyFloat (Fin 0))"
proof -
  have first: "row_return Map.empty r = Inr (PyFloat (Fin 0))"
    using assms(2) by (rule row_return_first)
  have "\<forall>ds. calc_daily_returns (self\<lparr>portfolio := r # rows\<rparr>) = Inr ds
               \<longrightarrow> hd ds = PyFloat (Fin 0)"
    using first by (auto simp: calc_daily_returns_def split: sum.splits)
  then show ?thesis
    using first row_return_value[OF assms] process_row_count[of lastValues r]
    by (simp add: cell_step_def)
qed

theorem daily_return_counts_every_observed_cell_witness:
  "snd (snd (process_row [0 \<mapsto> 100] [Some 110, Some 5])) = 2
   \<and> (\<exists>d. row_return [0 \<mapsto> 100] [Some 110, Some 5] = Inr d \<and> to_fl d = Fin (1 / 20))
   \<and> row_return Map.empty [Some 110, Some 5] = Inr (PyFloat (Fin 0))"
proof -
  let ?lv = "[(0::nat) \<mapsto> (100::real)]"
  let ?r = "[Some (110::real), Some 5]"
  have h1: "\<forall>j. ?lv j \<noteq> Some 0" by simp
  have h2: "0 < observed_count ?r" by (simp add: observed_count_def)
  have oc: "observed_count ?r = 2" by (simp add: observed_count_def)
  have pc: "sum_list (pct_changes ?lv 0 ?r) = 1 / 10" by simp
  note t = daily_return_counts_every_observed_cell [OF h1 h2]
  from t have a: "snd (snd (process_row ?lv ?r)) = observed_count ?r" by blast
  from t have b: "\<exists>d. row_return ?lv ?r = Inr d \<and>
               to_fl d = Fin (sum_list (pct_changes ?lv 0 ?r) / real (observed_count ?r))" by blast
  from t have c: "row_return Map.empty ?r = Inr (PyFloat (Fin 0))" by blast
  show ?thesis using a b c unfolding oc pc by simp
qed

text \<open>
  C1 as stated fails on the one-row table \<open>[[100, 200]]\<close>: no asset has a prior price,
  yet the count of the row is 2 and its return is the float 0.0.
\<close>

theorem first_row_count_counterexample:
  "snd (snd (process_row Map.empty [Some 100, Some 200])) = 2
   \<and> calc_daily_returns
        \<lparr>portfolio = [[Some 100, Some 200]], daily_returns = [], daily_values = [],
         myMetric = None, sharpeRatio = None, compareMetrics = [],
         correlationCoefficient = None\<rparr> = Inr [PyFloat (Fin 0)]"
  by (simp add: calc_daily_returns_def row_return_def process_row_def cell_step_def py_div_def)

text \<open>
  C9. The denominator of a row is the number of its observed cells, whether or not a
  prior price exists. A row with an observed cell has a denominator of at least 1 and its
  division returns; the division raises \<open>ZeroDivisionError\<close> exactly on a row whose
  cells are all missing, and this is the only way the whole derivation fails.
\<close>

theorem count_is_number_of_observed_cells:
  "snd (snd (process_row lastValues r)) = observed_count r
   \<and> (row_return lastValues r = Inl ZeroDivisionError \<longleftrightarrow> (\<forall>c\<in>set r. c = None))
   \<and> ((\<exists>c\<in>set r. c \<noteq> None) \<longrightarrow>
        1 \<le> snd (snd (process_row lastValues r)) \<and> (\<exists>d. row_return lastValues r = Inr d))
   \<and> (calc_daily_returns self = Inl e \<longleftrightarrow>
        e = ZeroDivisionError \<and> (\<exists>r\<in>set (portfolio self). \<forall>c\<in>set r. c = None))"
proof -
  have a: "row_return lastValues r = Inl ZeroDivisionError \<longleftrightarrow> (\<forall>c\<in>set r. c = None)"
    by (simp add: row_return_error observed_count_zero)
  have b: "(\<exists>c\<in>set r. c \<noteq> None) \<longrightarrow>
        1 \<le> snd (snd (process_row lastValues r)) \<and> (\<exists>d. row_return lastValues r = Inr d)"
  proof
    assume "\<exists>c\<in>set r. c \<noteq> None"
    then have pos: "observed_count r \<noteq> 0" by (simp add: observed_count_zero)
    then have "\<And>e'. row_return lastValues r \<noteq> Inl e'" by (simp add: row_return_error)
    then have "\<exists>d. row_return lastValues r = Inr d" by (cases "row_return lastValues r") auto
    with pos show "1 \<le> snd (snd (process_row lastValues r)) \<and> (\<exists>d. row_return lastValues r = Inr d)"
      by (simp add: process_row_count)
  qed
  have c: "calc_daily_returns self = Inl e \<longleftrightarrow>
        e = ZeroDivisionError \<and> (\<exists>r\<in>set (portfolio self). \<forall>c\<in>set r. c = None)"
    by (simp add: calc_daily_returns_def days_loop_error observed_count_zero)
  show ?thesis using a b c by (simp add: process_row_count)
qed

theorem count_is_number_of_observed_cells_witness:
  "snd (snd (process_row Map.empty [Some 1, None])) = 1
   \<and> (\<exists>d. row_return Map.empty [Some 1, None] = Inr d)
   \<and> calc_daily_returns
        \<lparr>portfolio = [[Some 1, None], [None, None]], daily_returns = [], daily_values = [],
         myMetric = None, sharpeRatio = None, compareMetrics = [],
         correlationCoefficient = None\<rparr> = Inl ZeroDivisionError"
  using count_is_number_of_observed_cells
    [of Map.empty "[Some 1, None]"
        "\<lparr>portfolio = [[Some 1, None], [None, None]], daily_returns = [], daily_values = [],
          myMetric = None, sharpeRatio = None, compareMetrics = [],
          correlationCoefficient = None\<rparr>" ZeroDivisionError]
  by (simp add: observed_count_def)

section \<open>Facts about the Sharpe ratio\<close>

lemma sharpe_relevant_take:
  assumes "0 \<le> daysin" and "daysin \<le> int (length (daily_returns self)) - 1"
  shows "sharpe_relevant self daysin
           = take (nat (int (length (daily_returns self)) - 1 - daysin + 1)) (daily_returns self)"
    and "sharpe_relevant self daysin \<noteq> []"
proof -
  have eq: "int (length (daily_returns self)) - daysin = int (length (daily_returns self)) - 1 - daysin + 1"
    by simp
  show "sharpe_relevant self daysin
           = take (nat (int (length (daily_returns self)) - 1 - daysin + 1)) (daily_returns self)"
    using assms by (simp add: sharpe_relevant_def slice0_def)
  then show "sharpe_relevant self daysin \<noteq> []" using assms by auto
qed

lemma sharpe_stdev_fin:
  assumes "map to_fl (sharpe_relevant self daysin) = map Fin rs" and "sharpe_relevant self daysin \<noteq> []"
  shows "\<exists>sd. sharpe_stdev self daysin scale = Inr sd \<and>
              to_fl sd = Fin (populationStdev rs * real scale)"
proof -
  let ?rel = "sharpe_relevant self daysin"
  from mean_of_fin[OF assms] obtain m where m: "mean_of ?rel = Inr m" "to_fl m = Fin (mean rs)"
    by blast
  have len: "length rs = length ?rel" using assms(1) by (metis length_map)
  have nz: "real (length ?rel) \<noteq> 0" using assms(2) by simp
  let ?sq = "map (\<lambda>xi. py_pow (py_sub xi m) 2) ?rel"
  have "map to_fl ?sq = map (\<lambda>xi. fl_pow (fl_sub (to_fl xi) (Fin (mean rs))) 2) ?rel"
    by (simp add: to_fl_py_pow to_fl_py_sub m(2))
  also have "\<dots> = map (\<lambda>f. fl_pow (fl_sub f (Fin (mean rs))) 2) (map to_fl ?rel)"
    by (simp add: comp_def)
  also have "\<dots> = map Fin (map (\<lambda>x. (x - mean rs) ^ 2) rs)"
    unfolding assms(1) by (simp add: fl_pow_Fin comp_def)
  finally have sq: "map to_fl ?sq = map Fin (map (\<lambda>x. (x - mean rs) ^ 2) rs)" .
  let ?S = "sum_list (map (\<lambda>x. (x - mean rs) ^ 2) rs)"
  from py_div_fin[OF to_fl_py_sum[OF sq], of "PyInt (int (length ?rel))" "real (length ?rel)", OF _ nz]
  obtain q where q: "py_div (py_sum ?sq) (PyInt (int (length ?rel))) = Inr q"
      "to_fl q = Fin (?S / real (length ?rel))" by auto
  have "0 \<le> ?S" by (rule sum_list_nonneg) auto
  then have nn: "\<not> ?S / real (length ?rel) < 0" by (simp add: not_less)
  have sqrt: "math_sqrt q = Inr (PyFloat (Fin (sqrt (?S / real (length ?rel)))))"
    using q(2) nn by (simp add: math_sqrt_def)
  show ?thesis
    using m(1) q(1) sqrt
    by (simp add: sharpe_stdev_def Let_def to_fl_py_mul populationStdev_def len)
qed

lemma sharpe_excess_fin:
  assumes "map to_fl (sharpe_relevant self daysin) = map Fin rs" and "sharpe_relevant self daysin \<noteq> []"
  shows "\<exists>ex. sharpe_excess self daysin scale = Inr ex \<and>
              to_fl ex = Fin ((1 + mean rs) ^ scale - 1 - 0.0426 / 252 * real scale)"
proof -
  from mean_of_fin[OF assms] obtain m where m: "mean_of (sharpe_relevant self daysin) = Inr m"
     "to_fl m = Fin (mean rs)" by blast
  show ?thesis using m(1) to_fl_compound[OF m(2), of scale]
    by (simp add: sharpe_excess_def sharpe_avgPeriodRet_def risk_free_def to_fl_py_sub)
qed

section \<open>Claims about the ratios\<close>

text \<open>
  C3. Line 73 overwrites the scale the caller passes, so the Burke ratio is the same
  for every scale argument: it is the ratio for 252.
\<close>

theorem burke_ignores_scale: "my_metric self daysin adjustedScale = my_metric self daysin 252"
  by (simp add: my_metric_def)


text \<open>
  C4. For \<open>daysin\<close> between 0 and the last row index, on the prefix of the daily returns
  up to and including row \<open>lastRowIndex - daysin\<close>, the Sharpe ratio is
  \<open>((1 + mean)^scale - 1 - (0.0426/252) scale) / (populationStdev scale)\<close>: the standard
  deviation divides by the count and is scaled linearly. (Stated where the formula has a
  value: the returns of the prefix are finite and the denominator is not zero. The cache
  holds one return per row, as the constructor builds it.)
\<close>

theorem sharpe_ratio_formula:
  assumes "length (daily_returns self) = length (portfolio self)"
    and "0 \<le> daysin" and "daysin \<le> int (length (portfolio self)) - 1"
    and "map to_fl (take (nat (int (length (portfolio self)) - 1 - daysin + 1)) (daily_returns self))
           = map Fin prefix"
    and "populationStdev prefix * real scale \<noteq> 0"
  shows "\<exists>v. sharpe_ratio self daysin scale = Inr v \<and>
             to_fl v = Fin (((1 + mean prefix) ^ scale - 1 - 0.0426 / 252 * real scale)
                            / (populationStdev prefix * real scale))"
proof -
  have d: "daysin \<le> int (length (daily_returns self)) - 1" using assms(1,3) by simp
  note rel = sharpe_relevant_take[OF assms(2) d]
  have fin: "map to_fl (sharpe_relevant self daysin) = map Fin prefix"
    using assms(4) rel(1) assms(1) by simp
  from sharpe_excess_fin[OF fin rel(2), of scale] obtain ex where
    ex: "sharpe_excess self daysin scale = Inr ex"
        "to_fl ex = Fin ((1 + mean prefix) ^ scale - 1 - 0.0426 / 252 * real scale)" by blast
  from sharpe_stdev_fin[OF fin rel(2), of scale] obtain sd where
    sd: "sharpe_stdev self daysin scale = Inr sd"
        "to_fl sd = Fin (populationStdev prefix * real scale)" by blast
  from py_div_fin[OF ex(2) sd(2) assms(5)] show ?thesis
    using ex(1) sd(1) by (simp add: sharpe_ratio_def)
qed


theorem sharpe_ratio_formula_witness:
  "\<exists>v. sharpe_ratio
          \<lparr>portfolio = [[Some 100], [Some 110], [Some 99]],
           daily_returns = [PyFloat (Fin 0), NpFloat (Fin (1 / 10)), NpFloat (Fin (- 1 / 10))],
           daily_values = [100, 110, 99], myMetric = None, sharpeRatio = None,
           compareMetrics = [], correlationCoefficient = None\<rparr> 1 252 = Inr v
      \<and> to_fl v = Fin (((1 + mean [0, 1 / 10]) ^ 252 - 1 - 0.0426 / 252 * real 252)
                        / (populationStdev [0, 1 / 10] * real 252))"
proof -
  let ?s = "\<lparr>portfolio = [[Some 100], [Some 110], [Some (99::real)]],
           daily_returns = [PyFloat (Fin 0), NpFloat (Fin (1 / 10)), NpFloat (Fin (- 1 / 10))],
           daily_values = [100, 110, 99], myMetric = None, sharpeRatio = None,
           compareMetrics = [], correlationCoefficient = None\<rparr>"
  have h1: "length (daily_returns ?s) = length (portfolio ?s)" by simp
  have h2: "(0::int) \<le> 1" by simp
  have h3: "1 \<le> int (length (portfolio ?s)) - 1" by simp
  have h4: "map to_fl (take (nat (int (length (portfolio ?s)) - 1 - 1 + 1)) (daily_returns ?s))
              = map Fin [0, 1 / 10]" by simp
  have h5: "populationStdev [0, 1 / 10] * real 252 \<noteq> 0"
    by (simp add: populationStdev_def mean_def)
  show ?thesis using sharpe_ratio_formula [OF h1 h2 h3 h4 h5] .
qed

section \<open>Facts about the Burke ratio\<close>

lemma burke_loop_both:
  assumes "length t = n" and "length i0 = n" and "k \<le> n"
    and "\<forall>(x, y)\<in>set (both_observed (drop k t) (drop k i0)). y \<noteq> 0"
    and "to_fl c = Fin a"
  shows "\<exists>c'. burke_loop t i0 [k..<n] (m, c)
                = Inr (m + length (both_observed (drop k t) (drop k i0)), c')
             \<and> to_fl c' = Fin (a + sum_list (map (\<lambda>(x, y). (x - y) / y)
                                       (both_observed (drop k t) (drop k i0))))
             \<and> (both_observed (drop k t) (drop k i0) \<noteq> [] \<or> is_np c \<longrightarrow> is_np c')"
  using assms
proof (induction "n - k" arbitrary: k m c a)
  case 0
  then show ?case by simp
next
  case (Suc d)
  then have kn: "k < n" by simp
  have upt: "[k..<n] = k # [Suc k..<n]" using kn by (simp add: upt_conv_Cons)
  have dt: "drop k t = t ! k # drop (Suc k) t" using kn Suc.prems(1) by (simp add: Cons_nth_drop_Suc)
  have di: "drop k i0 = i0 ! k # drop (Suc k) i0" using kn Suc.prems(2) by (simp add: Cons_nth_drop_Suc)
  have it: "iloc t (int k) = Inr (t ! k)" using kn Suc.prems(1) by (simp add: iloc_nat)
  have ii: "iloc i0 (int k) = Inr (i0 ! k)" using kn Suc.prems(2) by (simp add: iloc_nat)
  have d: "d = n - Suc k" using Suc.hyps(2) by simp
  have sk: "Suc k \<le> n" using kn by simp
  show ?case
  proof (cases "t ! k")
    case None
    then have bo: "both_observed (drop k t) (drop k i0)
                    = both_observed (drop (Suc k) t) (drop (Suc k) i0)"
      by (simp add: dt di)
    from Suc.hyps(1)[OF d Suc.prems(1,2) sk _ Suc.prems(5), of m] Suc.prems(4)
    show ?thesis unfolding bo upt using None it by simp
  next
    case (Some x)
    show ?thesis
    proof (cases "i0 ! k")
      case None
      then have bo: "both_observed (drop k t) (drop k i0)
                    = both_observed (drop (Suc k) t) (drop (Suc k) i0)"
        using Some by (simp add: dt di)
      from Suc.hyps(1)[OF d Suc.prems(1,2) sk _ Suc.prems(5), of m] Suc.prems(4)
      show ?thesis unfolding bo upt using None Some it ii by simp
    next
      case (Some y)
      have bo: "both_observed (drop k t) (drop k i0)
                    = (x, y) # both_observed (drop (Suc k) t) (drop (Suc k) i0)"
        using Some \<open>t ! k = Some x\<close> by (simp add: dt di)
      have y0: "y \<noteq> 0" using Suc.prems(4) unfolding bo by simp
      have rest: "\<forall>(x, y)\<in>set (both_observed (drop (Suc k) t) (drop (Suc k) i0)). y \<noteq> 0"
        using Suc.prems(4) unfolding bo by simp
      let ?c = "py_add c (NpFloat (fl_div (fl_sub (Fin x) (Fin y)) (Fin y)))"
      have c: "to_fl ?c = Fin (a + (x - y) / y)"
        using y0 Suc.prems(5) by (simp add: to_fl_py_add)
      have np: "is_np ?c" by (simp add: is_np_py_add)
      from Suc.hyps(1)[OF d Suc.prems(1,2) sk rest c, of "m + 1"] np
      show ?thesis unfolding bo upt using Some \<open>t ! k = Some x\<close> it ii
        by (simp add: add.assoc)
    qed
  qed
qed

lemma my_metric_returns_window:
  assumes "int scale \<le> idx + 1" and "0 < scale" and "idx < int (length (portfolio self))"
    and "length targetDate = length (portfolio self ! nat (idx - int scale + 1))"
    and "both_observed targetDate (portfolio self ! nat (idx - int scale + 1)) \<noteq> []"
    and "\<forall>(x, y)\<in>set (both_observed targetDate (portfolio self ! nat (idx - int scale + 1))). y \<noteq> 0"
  shows "my_metric_returns self idx targetDate scale
           = Inr (NpFloat (Fin (mean (map (\<lambda>(x, y). (x - y) / y)
                  (both_observed targetDate (portfolio self ! nat (idx - int scale + 1)))))))"
proof -
  let ?init = "portfolio self ! nat (idx - int scale + 1)"
  let ?pairs = "both_observed targetDate ?init"
  have il: "iloc (portfolio self) (idx - int scale + 1) = Inr ?init"
    using assms(1,2,3) by (intro iloc_in_range) auto
  from burke_loop_both[of targetDate "length ?init" ?init 0 "PyInt 0" 0 0] assms(4,6)
  obtain c' where c': "burke_loop targetDate ?init [0..<length ?init] (0, PyInt 0)
                         = Inr (length ?pairs, c')"
      "to_fl c' = Fin (sum_list (map (\<lambda>(x, y). (x - y) / y) ?pairs))" "is_np c'"
    using assms(5) by auto
  have "length ?pairs \<noteq> 0" using assms(5) by simp
  then show ?thesis using assms(1) il c'
    by (simp add: my_metric_returns_def py_div_def mean_def)
qed

lemma foldl_max_Max: "foldl max x xs = Max (set (x # xs))"
  unfolding Max.set_eq_fold by (simp add: foldl_conv_fold max.commute)

lemma my_metric_denom_value:
  assumes "0 \<le> idx + 1" and "take (nat (idx + 1)) (daily_values self) \<noteq> []"
    and "Max (set (take (nat (idx + 1)) (daily_values self))) \<noteq> 0"
  shows "my_metric_denom self idx
           = Inr (PyFloat (Fin (drawdown_denom (take (nat (idx + 1)) (daily_values self)))))"
proof -
  let ?vs = "take (nat (idx + 1)) (daily_values self)"
  have sl: "slice0 (daily_values self) (idx + 1) = ?vs" using assms(1) by (rule slice0_take)
  obtain x xs where vs: "?vs = x # xs" using assms(2) by (cases ?vs) auto
  have mx: "py_max ?vs = Inr (Max (set ?vs))" unfolding vs by (simp add: foldl_max_Max)
  have "0 \<le> sum_list (map (\<lambda>v. ((v - Max (set ?vs)) / Max (set ?vs)) ^ 2) ?vs)"
    by (rule sum_list_nonneg) auto
  then have "\<not> sum_list (map (\<lambda>v. ((v - Max (set ?vs)) / Max (set ?vs)) ^ 2) ?vs) < 0"
    by (simp add: not_less)
  then show ?thesis using mx assms(3)
    by (simp add: my_metric_denom_def sl Let_def math_sqrt_def drawdown_denom_def comp_def)
qed

section \<open>Claims about the Burke ratio\<close>

text \<open>
  C5. For \<open>daysin\<close> between 0 and the last row index and the scale 252, with
  \<open>targetRowIndex = lastRowIndex - daysin\<close>: when \<open>252 \<le> targetRowIndex + 1\<close>, the
  period return is the mean, over the assets observed in both the target row and the row
  \<open>targetRowIndex - 252 + 1\<close>, of \<open>(target - init) / init\<close>; and in either branch the
  ratio is the period return minus the risk-free rate, divided by the square root of the
  sum of the squared drawdowns of the daily values of rows 0 to \<open>targetRowIndex\<close>.
  (Stated where the formula has a value: some asset is observed in both rows with a
  non-zero initial price, the period return is finite, and peak and denominator are not
  zero.)
\<close>

theorem burke_ratio_formula:
  assumes "0 \<le> daysin" and "daysin \<le> int (length (portfolio self)) - 1"
    and "targetRowIndex = int (length (portfolio self)) - 1 - daysin"
    and "targetRow = portfolio self ! nat targetRowIndex"
    and "initRow = portfolio self ! nat (targetRowIndex - 252 + 1)"
    and "vs = take (nat (targetRowIndex + 1)) (daily_values self)"
    and "vs \<noteq> []" and "Max (set vs) \<noteq> 0" and "drawdown_denom vs \<noteq> 0"
  shows "(252 \<le> targetRowIndex + 1 \<and> length targetRow = length initRow
            \<and> both_observed targetRow initRow \<noteq> []
            \<and> (\<forall>(t, i)\<in>set (both_observed targetRow initRow). i \<noteq> 0)
          \<longrightarrow> my_metric_returns self targetRowIndex targetRow 252
                = Inr (NpFloat (Fin (mean (map (\<lambda>(t, i). (t - i) / i)
                                              (both_observed targetRow initRow))))))
       \<and> (\<forall>p periodReturn.
            my_metric_returns self targetRowIndex targetRow 252 = Inr p
            \<and> to_fl p = Fin periodReturn
          \<longrightarrow> (\<exists>v. my_metric self daysin scale = Inr v
                  \<and> to_fl v = Fin ((periodReturn - 0.0426 / 252 * 252) / drawdown_denom vs)))"
proof (intro conjI impI allI)
  assume a: "252 \<le> targetRowIndex + 1 \<and> length targetRow = length initRow
            \<and> both_observed targetRow initRow \<noteq> []
            \<and> (\<forall>(t, i)\<in>set (both_observed targetRow initRow). i \<noteq> 0)"
  have lt: "targetRowIndex < int (length (portfolio self))" using assms(1,3) by simp
  from my_metric_returns_window[of 252 targetRowIndex self targetRow] a lt
  show "my_metric_returns self targetRowIndex targetRow 252
                = Inr (NpFloat (Fin (mean (map (\<lambda>(t, i). (t - i) / i)
                                              (both_observed targetRow initRow)))))"
    unfolding assms(5) by simp
next
  fix p periodReturn
  assume b: "my_metric_returns self targetRowIndex targetRow 252 = Inr p
            \<and> to_fl p = Fin periodReturn"
  have rng: "0 \<le> targetRowIndex" "targetRowIndex < int (length (portfolio self))"
    using assms(1,2,3) by simp_all
  have il: "iloc (portfolio self) targetRowIndex = Inr targetRow"
    unfolding assms(4) using rng by (rule iloc_in_range)
  have rp: "my_metric_rpMinusrf self daysin 252 = Inr (py_sub p (risk_free 252))"
    using il b assms(3) by (simp add: my_metric_rpMinusrf_def)
  have rpv: "to_fl (py_sub p (risk_free 252)) = Fin (periodReturn - 0.0426 / 252 * 252)"
    using b by (simp add: to_fl_py_sub risk_free_def)
  have dn: "my_metric_denom self targetRowIndex = Inr (PyFloat (Fin (drawdown_denom vs)))"
    unfolding assms(6) using my_metric_denom_value[of targetRowIndex self] rng(1) assms(6,7,8)
    by simp
  have dv: "to_fl (PyFloat (Fin (drawdown_denom vs))) = Fin (drawdown_denom vs)" by simp
  from py_div_fin[OF rpv dv assms(9)]
  show "\<exists>v. my_metric self daysin scale = Inr v
                  \<and> to_fl v = Fin ((periodReturn - 0.0426 / 252 * 252) / drawdown_denom vs)"
    using rp dn assms(3) by (simp add: my_metric_def)
qed

theorem burke_ratio_formula_witness:
  "my_metric_returns
     \<lparr>portfolio = replicate 251 [Some 100] @ [[Some 110]],
      daily_returns = replicate 252 (NpFloat (Fin 0)),
      daily_values = replicate 251 100 @ [110], myMetric = None, sharpeRatio = None,
      compareMetrics = [], correlationCoefficient = None\<rparr> 251 [Some 110] 252
   = Inr (NpFloat (Fin (mean (map (\<lambda>(t, i). (t - i) / i)
                                  (both_observed [Some 110] [Some 100])))))
   \<and> (\<exists>v. my_metric
     \<lparr>portfolio = replicate 251 [Some 100] @ [[Some 110]],
      daily_returns = replicate 252 (NpFloat (Fin 0)),
      daily_values = replicate 251 100 @ [110], myMetric = None, sharpeRatio = None,
      compareMetrics = [], correlationCoefficient = None\<rparr> 0 252 = Inr v
        \<and> to_fl v = Fin ((1 / 10 - 0.0426 / 252 * 252)
                          / drawdown_denom (replicate 251 100 @ [110])))
   \<and> (\<exists>v. my_metric
     \<lparr>portfolio = [[Some 100], [Some 110], [Some 99]],
      daily_returns = [PyFloat (Fin 0), NpFloat (Fin (1 / 10)), NpFloat (Fin (- 1 / 10))],
      daily_values = [100, 110, 99], myMetric = None, sharpeRatio = None,
      compareMetrics = [], correlationCoefficient = None\<rparr> 0 252 = Inr v
        \<and> to_fl v = Fin ((0 - 0.0426 / 252 * 252) / drawdown_denom [100, 110, 99]))"
proof -
  let ?s = "\<lparr>portfolio = replicate 251 [Some (100::real)] @ [[Some 110]],
      daily_returns = replicate 252 (NpFloat (Fin 0)),
      daily_values = replicate 251 100 @ [110], myMetric = None, sharpeRatio = None,
      compareMetrics = [], correlationCoefficient = None\<rparr>"
  let ?vs = "replicate 251 (100::real) @ [110]"
  have h1: "(0::int) \<le> 0" by simp
  have h2: "0 \<le> int (length (portfolio ?s)) - 1" by simp
  have h3: "251 = int (length (portfolio ?s)) - 1 - 0" by simp
  have h4: "[Some 110] = portfolio ?s ! nat 251" by (simp add: nth_append)
  have h5: "[Some 100] = portfolio ?s ! nat (251 - 252 + 1)" by (simp add: nth_append)
  have h6: "?vs = take (nat (251 + 1)) (daily_values ?s)" by simp
  have h7: "?vs \<noteq> []" by simp
  have mx: "Max (set ?vs) = 110" by simp
  have h8: "Max (set ?vs) \<noteq> 0" unfolding mx by simp
  have h9: "drawdown_denom ?vs \<noteq> 0"
    unfolding drawdown_denom_def mx by (simp add: sum_list_replicate)
  note t = burke_ratio_formula [OF h1 h2 h3 h4 h5 h6 h7 h8 h9, of 252]
  have b1: "252 \<le> (251::int) + 1 \<and> length [Some (110::real)] = length [Some (100::real)]
            \<and> both_observed [Some 110] [Some 100] \<noteq> []
            \<and> (\<forall>(t, i)\<in>set (both_observed [Some 110] [Some 100]). i \<noteq> 0)" by simp
  from t b1 have r: "my_metric_returns ?s 251 [Some 110] 252
     = Inr (NpFloat (Fin (mean (map (\<lambda>(t, i). (t - i) / i)
                                  (both_observed [Some 110] [Some 100])))))" by blast
  have v: "to_fl (NpFloat (Fin (mean (map (\<lambda>(t, i). (t - i) / i)
                                  (both_observed [Some 110] [Some 100]))))) = Fin (1 / 10)"
    by (simp add: mean_def)
  from t r v have w: "\<exists>v. my_metric ?s 0 252 = Inr v
        \<and> to_fl v = Fin ((1 / 10 - 0.0426 / 252 * 252) / drawdown_denom ?vs)" by blast
  let ?u = "\<lparr>portfolio = [[Some 100], [Some 110], [Some (99::real)]],
      daily_returns = [PyFloat (Fin 0), NpFloat (Fin (1 / 10)), NpFloat (Fin (- 1 / 10))],
      daily_values = [100, 110, 99], myMetric = None, sharpeRatio = None,
      compareMetrics = [], correlationCoefficient = None\<rparr>"
  let ?ws = "[100, 110, 99 :: real]"
  have g2: "0 \<le> int (length (portfolio ?u)) - 1" by simp
  have g3: "2 = int (length (portfolio ?u)) - 1 - 0" by simp
  have g4: "[Some 99] = portfolio ?u ! nat 2" by simp
  have g5: "[Some 100] = portfolio ?u ! nat (2 - 252 + 1)" by simp
  have g6: "?ws = take (nat (2 + 1)) (daily_values ?u)" by simp
  have g7: "?ws \<noteq> []" by simp
  have my: "Max (set ?ws) = 110" by simp
  have g8: "Max (set ?ws) \<noteq> 0" unfolding my by simp
  have g9: "drawdown_denom ?ws \<noteq> 0"
    unfolding drawdown_denom_def my by simp
  note u = burke_ratio_formula [OF h1 g2 g3 g4 g5 g6 g7 g8 g9, of 252]
  have p: "my_metric_returns ?u 2 [Some 99] 252 = Inr (NpFloat (Fin 0))
           \<and> to_fl (NpFloat (Fin 0)) = Fin 0"
    by (simp add: my_metric_returns_def slice0_def mean_of_def py_sum_def py_div_def
        compound_def wrap_def fl_pow_Fin)
  from u p have x: "\<exists>v. my_metric ?u 0 252 = Inr v
        \<and> to_fl v = Fin ((0 - 0.0426 / 252 * 252) / drawdown_denom ?ws)" by blast
  from r w x show ?thesis by blast
qed

text \<open>
  C8. In the insufficient-history branch (\<open>252 > targetRowIndex + 1\<close>) the period return
  of the Burke ratio is the \<open>avgPeriodRet\<close> of the Sharpe ratio for the scale 252: both
  slices are the prefix of the daily returns of rows 0 to \<open>lastRowIndex - daysin\<close>, and
  on finite returns both methods return \<open>(1 + mean prefix)^252 - 1\<close>, the compounded
  arithmetic mean of that prefix. The two excess-return numerators are then the same
  number, that value minus the risk-free rate of the period.
  (The cache holds one return per row, as the constructor builds it.)
\<close>

theorem insufficient_history_shares_numerator:
  assumes "length (daily_returns self) = length (portfolio self)"
    and "0 \<le> daysin" and "daysin \<le> int (length (portfolio self)) - 1"
    and "targetRowIndex = int (length (portfolio self)) - 1 - daysin"
    and "targetRowIndex + 1 < 252"
  shows "slice0 (daily_returns self) (targetRowIndex + 1)
           = take (nat (targetRowIndex + 1)) (daily_returns self)
       \<and> sharpe_relevant self daysin = take (nat (targetRowIndex + 1)) (daily_returns self)
       \<and> my_metric_returns self targetRowIndex targetRow 252 = sharpe_avgPeriodRet self daysin 252
       \<and> my_metric_rpMinusrf self daysin 252 = sharpe_excess self daysin 252
       \<and> (\<forall>prefix.
            map to_fl (take (nat (targetRowIndex + 1)) (daily_returns self)) = map Fin prefix
            \<longrightarrow> (\<exists>p. my_metric_returns self targetRowIndex targetRow 252 = Inr p
                     \<and> sharpe_avgPeriodRet self daysin 252 = Inr p
                     \<and> to_fl p = Fin ((1 + mean prefix) ^ 252 - 1))
                \<and> (\<exists>e. my_metric_rpMinusrf self daysin 252 = Inr e
                     \<and> sharpe_excess self daysin 252 = Inr e
                     \<and> to_fl e = Fin ((1 + mean prefix) ^ 252 - 1 - 0.0426 / 252 * 252)))"
proof -
  have rng: "0 \<le> targetRowIndex" "targetRowIndex < int (length (portfolio self))"
    using assms(2,3,4) by simp_all
  have s1: "slice0 (daily_returns self) (targetRowIndex + 1)
           = take (nat (targetRowIndex + 1)) (daily_returns self)"
    using rng(1) by (simp add: slice0_take)
  have d: "daysin \<le> int (length (daily_returns self)) - 1" using assms(1,3) by simp
  note rel = sharpe_relevant_take[OF assms(2) d]
  have s2: "sharpe_relevant self daysin = take (nat (targetRowIndex + 1)) (daily_returns self)"
    using rel(1) assms(1,4) by simp
  have r: "\<And>row. my_metric_returns self targetRowIndex row 252 = sharpe_avgPeriodRet self daysin 252"
    using assms(5) by (simp add: my_metric_returns_def sharpe_avgPeriodRet_def s1 s2)
  have il: "iloc (portfolio self) targetRowIndex = Inr (portfolio self ! nat targetRowIndex)"
    using rng by (rule iloc_in_range)
  have n: "my_metric_rpMinusrf self daysin 252 = sharpe_excess self daysin 252"
    using il r assms(4) by (simp add: my_metric_rpMinusrf_def sharpe_excess_def)
  have v: "\<forall>prefix.
            map to_fl (take (nat (targetRowIndex + 1)) (daily_returns self)) = map Fin prefix
            \<longrightarrow> (\<exists>p. my_metric_returns self targetRowIndex targetRow 252 = Inr p
                     \<and> sharpe_avgPeriodRet self daysin 252 = Inr p
                     \<and> to_fl p = Fin ((1 + mean prefix) ^ 252 - 1))
                \<and> (\<exists>e. my_metric_rpMinusrf self daysin 252 = Inr e
                     \<and> sharpe_excess self daysin 252 = Inr e
                     \<and> to_fl e = Fin ((1 + mean prefix) ^ 252 - 1 - 0.0426 / 252 * 252))"
  proof (intro allI impI)
    fix prefix
    assume "map to_fl (take (nat (targetRowIndex + 1)) (daily_returns self)) = map Fin prefix"
    then have fin: "map to_fl (sharpe_relevant self daysin) = map Fin prefix" using s2 by simp
    from mean_of_fin[OF fin rel(2)] obtain m where
      m: "mean_of (sharpe_relevant self daysin) = Inr m" "to_fl m = Fin (mean prefix)" by blast
    have p: "sharpe_avgPeriodRet self daysin 252 = Inr (compound m 252)"
      using m(1) by (simp add: sharpe_avgPeriodRet_def)
    have pv: "to_fl (compound m 252) = Fin ((1 + mean prefix) ^ 252 - 1)"
      using m(2) by (rule to_fl_compound)
    from sharpe_excess_fin[OF fin rel(2), of 252] obtain e where
      e: "sharpe_excess self daysin 252 = Inr e"
         "to_fl e = Fin ((1 + mean prefix) ^ 252 - 1 - 0.0426 / 252 * 252)" by auto
    show "(\<exists>p. my_metric_returns self targetRowIndex targetRow 252 = Inr p
                     \<and> sharpe_avgPeriodRet self daysin 252 = Inr p
                     \<and> to_fl p = Fin ((1 + mean prefix) ^ 252 - 1))
                \<and> (\<exists>e. my_metric_rpMinusrf self daysin 252 = Inr e
                     \<and> sharpe_excess self daysin 252 = Inr e
                     \<and> to_fl e = Fin ((1 + mean prefix) ^ 252 - 1 - 0.0426 / 252 * 252))"
      using r[of targetRow] p pv n e by simp
  qed
  show ?thesis using s1 s2 r n v by blast
qed

theorem insufficient_history_shares_numerator_witness:
  "(\<exists>p. my_metric_returns
     \<lparr>portfolio = [[Some 100], [Some 110], [Some 99]],
      daily_returns = [PyFloat (Fin 0), NpFloat (Fin (1 / 10)), NpFloat (Fin (- 1 / 10))],
      daily_values = [100, 110, 99], myMetric = None, sharpeRatio = None,
      compareMetrics = [], correlationCoefficient = None\<rparr> 1 [Some 110] 252 = Inr p
      \<and> sharpe_avgPeriodRet
     \<lparr>portfolio = [[Some 100], [Some 110], [Some 99]],
      daily_returns = [PyFloat (Fin 0), NpFloat (Fin (1 / 10)), NpFloat (Fin (- 1 / 10))],
      daily_values = [100, 110, 99], myMetric = None, sharpeRatio = None,
      compareMetrics = [], correlationCoefficient = None\<rparr> 1 252 = Inr p
      \<and> to_fl p = Fin ((1 + mean [0, 1 / 10]) ^ 252 - 1))
   \<and> (\<exists>e. my_metric_rpMinusrf
     \<lparr>portfolio = [[Some 100], [Some 110], [Some 99]],
      daily_returns = [PyFloat (Fin 0), NpFloat (Fin (1 / 10)), NpFloat (Fin (- 1 / 10))],
      daily_values = [100, 110, 99], myMetric = None, sharpeRatio = None,
      compareMetrics = [], correlationCoefficient = None\<rparr> 1 252 = Inr e
      \<and> sharpe_excess
     \<lparr>portfolio = [[Some 100], [Some 110], [Some 99]],
      daily_returns = [PyFloat (Fin 0), NpFloat (Fin (1 / 10)), NpFloat (Fin (- 1 / 10))],
      daily_values = [100, 110, 99], myMetric = None, sharpeRatio = None,
      compareMetrics = [], correlationCoefficient = None\<rparr> 1 252 = Inr e
      \<and> to_fl e = Fin ((1 + mean [0, 1 / 10]) ^ 252 - 1 - 0.0426 / 252 * 252))
   \<and> mean [0, 1 / 10] = 1 / 20"
proof -
  let ?s = "\<lparr>portfolio = [[Some 100], [Some 110], [Some (99::real)]],
      daily_returns = [PyFloat (Fin 0), NpFloat (Fin (1 / 10)), NpFloat (Fin (- 1 / 10))],
      daily_values = [100, 110, 99], myMetric = None, sharpeRatio = None,
      compareMetrics = [], correlationCoefficient = None\<rparr>"
  have h1: "length (daily_returns ?s) = length (portfolio ?s)" by simp
  have h2: "(0::int) \<le> 1" by simp
  have h3: "1 \<le> int (length (portfolio ?s)) - 1" by simp
  have h4: "1 = int (length (portfolio ?s)) - 1 - 1" by simp
  have h5: "(1::int) + 1 < 252" by simp
  have h6: "map to_fl (take (nat (1 + 1)) (daily_returns ?s)) = map Fin [0, 1 / 10]"
    by (simp add: numeral_2_eq_2)
  have m: "mean [0, 1 / 10] = 1 / 20" by (simp add: mean_def)
  note t = insufficient_history_shares_numerator [OF h1 h2 h3 h4 h5, of "[Some 110]"]
  from t h6 m show ?thesis by blast
qed

section \<open>Facts about zero denominators and the sweep\<close>

lemma sharpe_excess_np:
  "sharpe_excess self daysin scale = Inr ex \<Longrightarrow>
     is_np ex \<longleftrightarrow> (\<exists>x\<in>set (sharpe_relevant self daysin). is_np x)"
  by (auto simp: sharpe_excess_def sharpe_avgPeriodRet_def risk_free_def is_np_py_sub
        is_np_compound mean_of_np split: sum.splits)

lemma sharpe_ratio_zero_stdev:
  assumes "map to_fl (sharpe_relevant self daysin) = map Fin rs"
    and "sharpe_relevant self daysin \<noteq> []"
    and "\<exists>x\<in>set (sharpe_relevant self daysin). is_np x"
    and "populationStdev rs * real scale = 0"
  shows "sharpe_ratio self daysin scale = Inr (NpFloat NonFin)"
proof -
  from sharpe_excess_fin[OF assms(1,2), of scale] obtain ex where
    ex: "sharpe_excess self daysin scale = Inr ex"
        "to_fl ex = Fin ((1 + mean rs) ^ scale - 1 - 0.0426 / 252 * real scale)" by blast
  have np: "is_np ex" using sharpe_excess_np[OF ex(1)] assms(3) by simp
  from sharpe_stdev_fin[OF assms(1,2), of scale] obtain sd where
    sd: "sharpe_stdev self daysin scale = Inr sd" "to_fl sd = Fin 0"
    using assms(4) by auto
  show ?thesis using ex sd np by (simp add: sharpe_ratio_def py_div_np)
qed

lemma my_metric_denom_py: "my_metric_denom self idx = Inr d \<Longrightarrow> \<not> is_np d"
  by (auto simp: my_metric_denom_def math_sqrt_def Let_def split: sum.splits if_splits)

lemma my_metric_zero_denom:
  assumes "my_metric_rpMinusrf self daysin 252 = Inr rp"
    and "my_metric_denom self (int (length (portfolio self)) - 1 - daysin) = Inr d"
    and "to_fl d = Fin 0"
  shows "my_metric self daysin scale
           = (if is_np rp then Inr (NpFloat NonFin) else Inl ZeroDivisionError)"
proof -
  have nd: "\<not> is_np d" using assms(2) by (rule my_metric_denom_py)
  have "fl_div (to_fl rp) (Fin 0) = NonFin" by (cases "to_fl rp") simp_all
  then show ?thesis using assms nd by (simp add: my_metric_def py_div_def)
qed

lemma compare_loop_sound:
  "compare_loop self offs = Inr tbl \<Longrightarrow>
     map fst tbl = offs \<and>
     (\<forall>(i, sharpe, burke)\<in>set tbl.
        \<exists>s b. sharpe_ratio self i 252 = Inr s \<and> to_fl s = sharpe
            \<and> my_metric self i 252 = Inr b \<and> to_fl b = burke)"
  by (induction offs arbitrary: tbl) (auto split: sum.splits)

lemma compare_loop_complete:
  "map fst tbl = offs \<Longrightarrow>
     (\<forall>(i, sharpe, burke)\<in>set tbl.
        \<exists>s b. sharpe_ratio self i 252 = Inr s \<and> to_fl s = sharpe
            \<and> my_metric self i 252 = Inr b \<and> to_fl b = burke)
     \<Longrightarrow> compare_loop self offs = Inr tbl"
proof (induction tbl arbitrary: offs)
  case Nil
  then show ?case by auto
next
  case (Cons row tbl)
  obtain i sh bu where row: "row = (i, sh, bu)" by (cases row)
  from Cons.prems(2) row obtain s b where
    sb: "sharpe_ratio self i 252 = Inr s" "to_fl s = sh" "my_metric self i 252 = Inr b" "to_fl b = bu"
    by auto
  have rest: "compare_loop self (map fst tbl) = Inr tbl"
    using Cons.IH[of "map fst tbl"] Cons.prems(2) by simp
  have "offs = i # map fst tbl" using Cons.prems(1) row by auto
  then show ?case using sb rest row by simp
qed

lemma compare_loop_rows:
  "compare_loop self offs = Inr tbl \<longleftrightarrow>
     map fst tbl = offs \<and>
     (\<forall>(i, sharpe, burke)\<in>set tbl.
        \<exists>s b. sharpe_ratio self i 252 = Inr s \<and> to_fl s = sharpe
            \<and> my_metric self i 252 = Inr b \<and> to_fl b = burke)"
  using compare_loop_sound[of self offs tbl] compare_loop_complete[of tbl offs self] by blast

lemma compare_loop_returns:
  "(\<forall>i\<in>set offs. (\<exists>s. sharpe_ratio self i 252 = Inr s) \<and> (\<exists>b. my_metric self i 252 = Inr b))
     \<Longrightarrow> \<exists>tbl. compare_loop self offs = Inr tbl"
  by (induction offs) auto

lemma numGenerate_eq: "numGenerate = map (\<lambda>k. 1 + 15 * int k) [0..<54]"
  by (simp add: numGenerate_def py_range_def)

lemma numGenerate_length: "length numGenerate = 54"
  by (simp add: numGenerate_eq)

lemma numGenerate_sorted: "sorted_wrt (<) numGenerate"
  unfolding numGenerate_eq sorted_wrt_map
  by (rule sorted_wrt_mono_rel[of "[0..<54]" "(<)"]) simp_all

lemma numGenerate_bounds: "i \<in> set numGenerate \<Longrightarrow> 1 \<le> i \<and> i \<le> 796"
  by (auto simp: numGenerate_eq)

lemma numGenerate_last: "last numGenerate = 796"
  by (simp add: numGenerate_eq last_map)

text \<open>
  The object the constructor returns holds one daily return and one daily value per row,
  and the example object holds the daily returns and values of its own table.
\<close>

lemma init_coherent:
  assumes "init table = Inr self"
  shows "portfolio self = table \<and> length (daily_returns self) = length table
         \<and> calc_daily_returns self = Inr (daily_returns self)
         \<and> daily_values self = map row_sum table"
  using assms
  by (auto simp: init_def Let_def calc_daily_returns_def calc_daily_values_def
      dest: days_loop_length split: sum.splits)

lemma days_loop_constant:
  "lv 0 = Some 1 \<Longrightarrow> days_loop lv (replicate n [Some 1]) = Inr (replicate n (NpFloat (Fin 0)))"
  by (induction n arbitrary: lv)
     (simp_all add: row_return_def process_row_def cell_step_def py_div_def)

lemma constant_prices_coherent:
  "calc_daily_returns constant_prices = Inr (daily_returns constant_prices)
   \<and> calc_daily_values constant_prices = daily_values constant_prices"
proof -
  have r: "replicate 800 [Some (1::real)] = [Some 1] # replicate 799 [Some 1]"
    using replicate_Suc[of 799 "[Some (1::real)]"] by simp
  have d: "days_loop Map.empty ([Some 1] # replicate 799 [Some 1])
          = Inr (PyFloat (Fin 0) # replicate 799 (NpFloat (Fin 0)))"
    by (simp add: row_return_def process_row_def cell_step_def py_div_def days_loop_constant)
  have a: "calc_daily_returns constant_prices = Inr (daily_returns constant_prices)"
    using d by (simp add: calc_daily_returns_def constant_prices_def r del: replicate_Suc)
  have b: "calc_daily_values constant_prices = daily_values constant_prices"
    by (simp add: calc_daily_values_def constant_prices_def row_sum_def)
  show ?thesis using a b by simp
qed

lemma populationStdev_replicate_zero: "populationStdev (replicate n 0) = 0"
  by (simp add: populationStdev_def mean_def sum_list_replicate)

lemma constant_prices_prefix:
  assumes "3 \<le> k" and "k \<le> 800"
  shows "slice0 (daily_returns constant_prices) k
           = PyFloat (Fin 0) # replicate (nat k - 1) (NpFloat (Fin 0))"
proof -
  obtain m where m: "nat k = Suc m" using assms(1) by (cases "nat k") auto
  have "m \<le> 799" using m assms(2) by linarith
  then show ?thesis using assms(1) m
    by (simp add: slice0_def constant_prices_def min_def)
qed

lemma constant_prices_prefix_facts:
  assumes "3 \<le> k" and "k \<le> 800" and "xs = slice0 (daily_returns constant_prices) k"
  shows "map to_fl xs = map Fin (replicate (nat k) 0)" and "xs \<noteq> []" and "\<exists>x\<in>set xs. is_np x"
proof -
  have "2 \<le> nat k" using assms(1) by simp
  then obtain m0 where "nat k = 2 + m0" using le_Suc_ex by blast
  then obtain m where m: "nat k = Suc (Suc m)" by simp
  have xs: "xs = PyFloat (Fin 0) # replicate (Suc m) (NpFloat (Fin 0))"
    using constant_prices_prefix[OF assms(1,2)] m assms(3) by simp
  show "map to_fl xs = map Fin (replicate (nat k) 0)" unfolding xs m by simp
  show "xs \<noteq> []" unfolding xs by simp
  show "\<exists>x\<in>set xs. is_np x" unfolding xs by simp
qed

lemma constant_prices_sharpe:
  assumes "1 \<le> i" and "i \<le> 796"
  shows "sharpe_ratio constant_prices i 252 = Inr (NpFloat NonFin)"
proof -
  have rel: "sharpe_relevant constant_prices i = slice0 (daily_returns constant_prices) (800 - i)"
    by (simp add: sharpe_relevant_def constant_prices_def)
  have k: "3 \<le> 800 - i" "800 - i \<le> 800" using assms by simp_all
  note f = constant_prices_prefix_facts[OF k rel]
  show ?thesis
    by (rule sharpe_ratio_zero_stdev[OF f]) (simp add: populationStdev_replicate_zero)
qed

lemma constant_prices_returns:
  assumes "3 \<le> idx" and "idx \<le> 798"
  shows "\<exists>p. my_metric_returns constant_prices idx [Some 1] 252 = Inr p \<and> is_np p"
proof (cases "252 \<le> idx + 1")
  case True
  have init: "portfolio constant_prices ! nat (idx - int 252 + 1) = [Some 1]"
    using True assms(2) by (simp add: constant_prices_def)
  have a1: "int 252 \<le> idx + 1" using True by simp
  have a2: "0 < (252::nat)" by simp
  have a3: "idx < int (length (portfolio constant_prices))"
    using assms(2) by (simp add: constant_prices_def)
  have a4: "length [Some (1::real)] = length (portfolio constant_prices ! nat (idx - int 252 + 1))"
    unfolding init by simp
  have a5: "both_observed [Some 1] (portfolio constant_prices ! nat (idx - int 252 + 1)) \<noteq> []"
    unfolding init by simp
  have a6: "\<forall>(x, y)\<in>set (both_observed [Some 1]
               (portfolio constant_prices ! nat (idx - int 252 + 1))). y \<noteq> 0"
    unfolding init by simp
  note my_metric_returns_window[OF a1 a2 a3 a4 a5 a6]
  then show ?thesis by simp
next
  case False
  let ?xs = "slice0 (daily_returns constant_prices) (idx + 1)"
  have k: "3 \<le> idx + 1" "idx + 1 \<le> 800" using assms by simp_all
  note f = constant_prices_prefix_facts[OF k refl]
  from mean_of_fin[OF f(1,2)] obtain m where m: "mean_of ?xs = Inr m" by blast
  have "is_np m" using mean_of_np[OF m] f(3) by simp
  then show ?thesis using False m
    by (simp add: my_metric_returns_def is_np_compound)
qed

lemma constant_prices_burke:
  assumes "1 \<le> i" and "i \<le> 796"
  shows "my_metric constant_prices i 252 = Inr (NpFloat NonFin)"
proof -
  let ?idx = "799 - i"
  have idx: "int (length (portfolio constant_prices)) - 1 - i = ?idx"
    by (simp add: constant_prices_def)
  have rng: "3 \<le> ?idx" "?idx \<le> 798" using assms by simp_all
  have il: "iloc (portfolio constant_prices) ?idx = Inr [Some 1]"
    using rng by (simp add: iloc_def constant_prices_def)
  from constant_prices_returns[OF rng] obtain p where
    p: "my_metric_returns constant_prices ?idx [Some 1] 252 = Inr p" "is_np p" by blast
  have rp: "my_metric_rpMinusrf constant_prices i 252 = Inr (py_sub p (risk_free 252))"
    using il p(1) by (simp add: my_metric_rpMinusrf_def idx)
  have np: "is_np (py_sub p (risk_free 252))" using p(2) by (simp add: is_np_py_sub)
  obtain n where n: "nat (?idx + 1) = Suc n" using rng(1) by (cases "nat (?idx + 1)") auto
  have n800: "Suc n \<le> 800" using n rng(2) by linarith
  have vs: "take (nat (?idx + 1)) (daily_values constant_prices) = replicate (Suc n) 1"
    using n800 unfolding n by (simp add: constant_prices_def min_def del: replicate_Suc)
  have dn: "my_metric_denom constant_prices ?idx = Inr (PyFloat (Fin 0))"
    using my_metric_denom_value[of ?idx constant_prices] rng(1) unfolding vs
    by (simp add: drawdown_denom_def sum_list_replicate del: replicate_Suc)
  from my_metric_zero_denom[of constant_prices i, OF rp] dn np
  show ?thesis unfolding idx by simp
qed

section \<open>Claims about the sweep\<close>

text \<open>
  C6. The offsets of the sweep are \<open>range(1, 800, 15)\<close>: the 54 numbers 1, 16, 31, ...,
  796, strictly increasing. The table of the sweep has exactly one row per offset, in the
  order of the offsets, and the row of an offset holds the Sharpe ratio and the Burke ratio
  of that offset, both computed on the same object (the same cached series). The sweep
  returns a table as soon as every one of these calls returns.
\<close>

theorem sweep_has_54_ordered_entries:
  "numGenerate = map (\<lambda>k. 1 + 15 * int k) [0..<54]
   \<and> length numGenerate = 54 \<and> sorted_wrt (<) numGenerate \<and> last numGenerate = 796
   \<and> (compare_metrics self = Inr tbl \<longleftrightarrow>
        map fst tbl = numGenerate \<and>
        (\<forall>(i, sharpe, burke)\<in>set tbl.
           \<exists>s b. sharpe_ratio self i 252 = Inr s \<and> to_fl s = sharpe
               \<and> my_metric self i 252 = Inr b \<and> to_fl b = burke))
   \<and> (compare_metrics self = Inr tbl \<longrightarrow> length tbl = 54)
   \<and> ((\<forall>i\<in>set numGenerate.
          (\<exists>s. sharpe_ratio self i 252 = Inr s) \<and> (\<exists>b. my_metric self i 252 = Inr b))
        \<longrightarrow> (\<exists>t. compare_metrics self = Inr t))"
proof -
  have a: "compare_metrics self = Inr tbl \<longleftrightarrow>
        map fst tbl = numGenerate \<and>
        (\<forall>(i, sharpe, burke)\<in>set tbl.
           \<exists>s b. sharpe_ratio self i 252 = Inr s \<and> to_fl s = sharpe
               \<and> my_metric self i 252 = Inr b \<and> to_fl b = burke)"
    unfolding compare_metrics_def by (rule compare_loop_rows)
  have b: "compare_metrics self = Inr tbl \<longrightarrow> length tbl = 54"
    using a numGenerate_length by (metis length_map)
  have c: "(\<forall>i\<in>set numGenerate.
          (\<exists>s. sharpe_ratio self i 252 = Inr s) \<and> (\<exists>b. my_metric self i 252 = Inr b))
        \<longrightarrow> (\<exists>t. compare_metrics self = Inr t)"
    unfolding compare_metrics_def using compare_loop_returns[of numGenerate self] by blast
  show ?thesis
    using a b c numGenerate_eq numGenerate_length numGenerate_sorted numGenerate_last by blast
qed


theorem sweep_has_54_ordered_entries_witness:
  "compare_metrics constant_prices = Inr (map (\<lambda>i. (i, NonFin, NonFin)) numGenerate)
   \<and> length (map (\<lambda>i. (i, NonFin, NonFin)) numGenerate) = 54"
proof -
  let ?tbl = "map (\<lambda>i. (i, NonFin, NonFin)) numGenerate"
  have h1: "map fst ?tbl = numGenerate" by (simp add: comp_def)
  have h2: "\<forall>(i, sharpe, burke)\<in>set ?tbl.
           \<exists>s b. sharpe_ratio constant_prices i 252 = Inr s \<and> to_fl s = sharpe
               \<and> my_metric constant_prices i 252 = Inr b \<and> to_fl b = burke"
    using constant_prices_sharpe constant_prices_burke numGenerate_bounds by auto
  note t = sweep_has_54_ordered_entries [of constant_prices ?tbl]
  from t h1 h2 have a: "compare_metrics constant_prices = Inr ?tbl" by blast
  with t have "length ?tbl = 54" by blast
  with a show ?thesis by blast
qed

section \<open>Facts about the correlation coefficient\<close>

lemma series_mean_fin: "xs \<noteq> [] \<Longrightarrow> series_mean (map Fin xs) = Fin (mean xs)"
proof -
  have "concat (map (\<lambda>x. case x of Fin v \<Rightarrow> [v] | NonFin \<Rightarrow> []) (map Fin xs)) = xs"
    by (induction xs) simp_all
  then show "xs \<noteq> [] \<Longrightarrow> series_mean (map Fin xs) = Fin (mean xs)"
    by (simp add: series_mean_def mean_def)
qed

lemma corr_loop_fin:
  assumes "to_fl a = Fin sa" and "to_fl b = Fin sb" and "to_fl c = Fin sc"
  shows "\<exists>a' b' c'.
          corr_loop (Fin ax) (Fin ay) (map (\<lambda>(x, y). (Fin x, Fin y)) ps) (a, b, c) = (a', b', c')
          \<and> to_fl a' = Fin (sa + sum_list (map (\<lambda>(x, y). (x - ax) * (y - ay)) ps))
          \<and> to_fl b' = Fin (sb + sum_list (map (\<lambda>(x, y). (x - ax) ^ 2) ps))
          \<and> to_fl c' = Fin (sc + sum_list (map (\<lambda>(x, y). (y - ay) ^ 2) ps))
          \<and> (ps \<noteq> [] \<or> is_np a \<longrightarrow> is_np a')"
  using assms
proof (induction ps arbitrary: a b c sa sb sc)
  case Nil
  then show ?case by simp
next
  case (Cons p ps)
  obtain x y where p: "p = (x, y)" by (cases p)
  let ?a = "py_add a (NpFloat (fl_mul (fl_sub (Fin x) (Fin ax)) (fl_sub (Fin y) (Fin ay))))"
  let ?b = "py_add b (NpFloat (fl_pow (fl_sub (Fin x) (Fin ax)) 2))"
  let ?c = "py_add c (NpFloat (fl_pow (fl_sub (Fin y) (Fin ay)) 2))"
  have a: "to_fl ?a = Fin (sa + (x - ax) * (y - ay))"
    using Cons.prems(1) by (simp add: to_fl_py_add)
  have b: "to_fl ?b = Fin (sb + (x - ax) ^ 2)"
    using Cons.prems(2) by (simp add: to_fl_py_add fl_pow_Fin)
  have c: "to_fl ?c = Fin (sc + (y - ay) ^ 2)"
    using Cons.prems(3) by (simp add: to_fl_py_add fl_pow_Fin)
  have np: "is_np ?a" by (simp add: is_np_py_add)
  from Cons.IH[OF a b c] np show ?case unfolding p
    by (simp add: add.assoc)
qed

lemma zip_triple_columns:
  assumes "length offs = length xs" and "length ys = length xs"
  shows "map (\<lambda>(i, sharpe, burke). sharpe) (zip offs (zip xs ys)) = xs"
    and "map (\<lambda>(i, sharpe, burke). burke) (zip offs (zip xs ys)) = ys"
proof -
  have l: "length offs = length (zip xs ys)" using assms by simp
  have "map (\<lambda>(i, sharpe, burke). sharpe) (zip offs (zip xs ys))
          = map fst (map snd (zip offs (zip xs ys)))"
    by (simp add: comp_def case_prod_unfold)
  also have "\<dots> = xs" using l assms(2) by simp
  finally show "map (\<lambda>(i, sharpe, burke). sharpe) (zip offs (zip xs ys)) = xs" .
  have "map (\<lambda>(i, sharpe, burke). burke) (zip offs (zip xs ys))
          = map snd (map snd (zip offs (zip xs ys)))"
    by (simp add: comp_def case_prod_unfold)
  also have "\<dots> = ys" using l assms(2) by simp
  finally show "map (\<lambda>(i, sharpe, burke). burke) (zip offs (zip xs ys)) = ys" .
qed

lemma sum_zip_left:
  "length ys = length xs \<Longrightarrow> sum_list (map (\<lambda>(x, y). f x) (zip xs ys)) = sum_list (map f xs)"
  by (induction xs ys rule: list_induct2') simp_all

lemma sum_zip_right:
  "length ys = length xs \<Longrightarrow> sum_list (map (\<lambda>(x, y). f y) (zip xs ys)) = sum_list (map f ys)"
  by (induction xs ys rule: list_induct2') simp_all

lemma correlation_value:
  assumes "xs \<noteq> []" and "length ys = length xs" and "length offs = length xs"
    and "compareMetrics self = zip offs (zip (map Fin xs) (map Fin ys))"
  shows "get_correlation_coefficient self
           = Inr (NpFloat (if sq_devs xs * sq_devs ys = 0 then NonFin else Fin (pearson xs ys)))"
proof -
  have ys: "ys \<noteq> []" using assms(1,2) by auto
  have cols: "map (\<lambda>(i, sharpe, burke). sharpe) (compareMetrics self) = map Fin xs"
             "map (\<lambda>(i, sharpe, burke). burke) (compareMetrics self) = map Fin ys"
    unfolding assms(4) using zip_triple_columns[of offs "map Fin xs" "map Fin ys"] assms(2,3)
    by simp_all
  have z: "zip (map Fin xs) (map Fin ys) = map (\<lambda>(x, y). (Fin x, Fin y)) (zip xs ys)"
    by (simp add: zip_map_map)
  have ne: "zip xs ys \<noteq> []" using assms(1) ys by (cases xs; cases ys) auto
  from corr_loop_fin[of "PyInt 0" 0 "PyInt 0" 0 "PyInt 0" 0 "mean xs" "mean ys" "zip xs ys"] ne
  obtain a' b' c' where
    loop: "corr_loop (Fin (mean xs)) (Fin (mean ys)) (map (\<lambda>(x, y). (Fin x, Fin y)) (zip xs ys))
             (PyInt 0, PyInt 0, PyInt 0) = (a', b', c')"
    and a': "to_fl a' = Fin (dev_products xs ys)"
    and b': "to_fl b' = Fin (sq_devs xs)"
    and c': "to_fl c' = Fin (sq_devs ys)"
    and np: "is_np a'"
    using assms(2) by (auto simp: dev_products_def sq_devs_def sum_zip_left sum_zip_right)
  have nn: "0 \<le> sq_devs xs * sq_devs ys"
    unfolding sq_devs_def by (intro mult_nonneg_nonneg sum_list_nonneg) auto
  then have sq: "math_sqrt (py_mul b' c') = Inr (PyFloat (Fin (sqrt (sq_devs xs * sq_devs ys))))"
    using b' c' by (simp add: math_sqrt_def to_fl_py_mul not_less)
  show ?thesis
    using loop sq np a' assms(1) ys
    by (simp add: get_correlation_coefficient_def cols series_mean_fin z py_div_np pearson_def)
qed


lemma sq_devs_pos:
  assumes "\<not> constant_series xs"
  shows "0 < sq_devs xs"
proof -
  have nn: "0 \<le> sq_devs xs" unfolding sq_devs_def by (rule sum_list_nonneg) auto
  have "sq_devs xs \<noteq> 0"
  proof
    assume "sq_devs xs = 0"
    then have "\<forall>v\<in>set (map (\<lambda>x. (x - mean xs) ^ 2) xs). v = 0"
      unfolding sq_devs_def by (subst (asm) sum_list_nonneg_eq_0_iff) auto
    then have "\<forall>x\<in>set xs. x = mean xs" by auto
    moreover have "xs \<noteq> []" using assms by (auto simp: constant_series_def)
    ultimately have "\<forall>x\<in>set xs. x = hd xs" by (metis hd_in_set)
    then show False using assms by (simp add: constant_series_def)
  qed
  with nn show ?thesis by simp
qed

lemma pearson_same: "0 < sq_devs xs \<Longrightarrow> pearson xs xs = 1"
proof -
  assume p: "0 < sq_devs xs"
  have "dev_products xs xs = sq_devs xs"
    by (simp add: dev_products_def sq_devs_def zip_same_conv_map comp_def power2_eq_square)
  then show ?thesis using p by (simp add: pearson_def real_sqrt_mult)
qed

lemma sum_list_neg: "sum_list (map (\<lambda>x. - f x) xs) = - sum_list (map f xs)" for f :: "'a \<Rightarrow> real"
  by (induction xs) simp_all

lemma pearson_negated: "0 < sq_devs xs \<Longrightarrow> pearson xs (map uminus xs) = - 1"
proof -
  assume p: "0 < sq_devs xs"
  have m: "mean (map uminus xs) = - mean xs"
    using sum_list_neg[of "\<lambda>x. x" xs] by (simp add: mean_def comp_def)
  have "dev_products xs (map uminus xs)
          = sum_list (map (\<lambda>x. - ((x - mean xs) ^ 2)) xs)"
    unfolding dev_products_def m
    by (simp add: zip_map2 zip_same_conv_map comp_def power2_eq_square algebra_simps)
  then have d: "dev_products xs (map uminus xs) = - sq_devs xs"
    by (simp add: sum_list_neg sq_devs_def)
  have s: "sq_devs (map uminus xs) = sq_devs xs"
    unfolding sq_devs_def m
    by (simp add: comp_def power2_eq_square algebra_simps)
  show ?thesis using p by (simp add: pearson_def d s real_sqrt_mult)
qed


section \<open>Claims about the correlation coefficient and zero denominators\<close>

text \<open>
  C7, as the code has it. On two columns of finite numbers the method returns the Pearson
  coefficient whenever its denominator is not zero. Fed a series twice it returns 1.0, and
  fed a series and its negation it returns -1.0, whenever the sum of the squared
  deviations of the series from its mean is not zero (reals stand for doubles, so the
  value is exact here).
\<close>

theorem correlation_of_identical_and_negated_series:
  assumes "xs \<noteq> []" and "length offs = length xs"
  shows "(length ys = length xs \<and> sq_devs xs * sq_devs ys \<noteq> 0 \<longrightarrow>
            get_correlation_coefficient
              (self\<lparr>compareMetrics := zip offs (zip (map Fin xs) (map Fin ys))\<rparr>)
            = Inr (NpFloat (Fin (pearson xs ys))))
       \<and> (sq_devs xs \<noteq> 0 \<longrightarrow>
            get_correlation_coefficient
              (self\<lparr>compareMetrics := zip offs (zip (map Fin xs) (map Fin xs))\<rparr>)
            = Inr (NpFloat (Fin 1)))
       \<and> (sq_devs xs \<noteq> 0 \<longrightarrow>
            get_correlation_coefficient
              (self\<lparr>compareMetrics := zip offs (zip (map Fin xs) (map Fin (map uminus xs)))\<rparr>)
            = Inr (NpFloat (Fin (- 1))))"
proof (intro conjI impI)
  assume a: "length ys = length xs \<and> sq_devs xs * sq_devs ys \<noteq> 0"
  show "get_correlation_coefficient
              (self\<lparr>compareMetrics := zip offs (zip (map Fin xs) (map Fin ys))\<rparr>)
            = Inr (NpFloat (Fin (pearson xs ys)))"
    using correlation_value[OF assms(1) _ assms(2), of ys
        "self\<lparr>compareMetrics := zip offs (zip (map Fin xs) (map Fin ys))\<rparr>"] a
    by simp
next
  assume nz: "sq_devs xs \<noteq> 0"
  have "0 \<le> sq_devs xs" unfolding sq_devs_def by (rule sum_list_nonneg) auto
  with nz have p: "0 < sq_devs xs" by simp
  show "get_correlation_coefficient
              (self\<lparr>compareMetrics := zip offs (zip (map Fin xs) (map Fin xs))\<rparr>)
            = Inr (NpFloat (Fin 1))"
    using correlation_value[OF assms(1) _ assms(2), of xs
        "self\<lparr>compareMetrics := zip offs (zip (map Fin xs) (map Fin xs))\<rparr>"] p
    by (simp add: pearson_same)
next
  assume nz: "sq_devs xs \<noteq> 0"
  have "0 \<le> sq_devs xs" unfolding sq_devs_def by (rule sum_list_nonneg) auto
  with nz have p: "0 < sq_devs xs" by simp
  have s: "sq_devs (map uminus xs) = sq_devs xs"
    by (simp add: sq_devs_def mean_def comp_def sum_list_neg power2_eq_square algebra_simps)
  show "get_correlation_coefficient
              (self\<lparr>compareMetrics := zip offs (zip (map Fin xs) (map Fin (map uminus xs)))\<rparr>)
            = Inr (NpFloat (Fin (- 1)))"
    using correlation_value[OF assms(1) _ assms(2), of "map uminus xs"
        "self\<lparr>compareMetrics := zip offs (zip (map Fin xs) (map Fin (map uminus xs)))\<rparr>"] p
    by (simp add: pearson_negated s)
qed

theorem correlation_of_identical_and_negated_series_witness:
  "get_correlation_coefficient
     \<lparr>portfolio = [], daily_returns = [], daily_values = [], myMetric = None,
      sharpeRatio = None,
      compareMetrics = zip [1, 16, 31] (zip (map Fin [1, 2, 3]) (map Fin [2, 1, 5])),
      correlationCoefficient = None\<rparr> = Inr (NpFloat (Fin (pearson [1, 2, 3] [2, 1, 5])))
   \<and> get_correlation_coefficient
     \<lparr>portfolio = [], daily_returns = [], daily_values = [], myMetric = None,
      sharpeRatio = None,
      compareMetrics = zip [1, 16, 31] (zip (map Fin [1, 2, 3]) (map Fin [1, 2, 3])),
      correlationCoefficient = None\<rparr> = Inr (NpFloat (Fin 1))
   \<and> get_correlation_coefficient
     \<lparr>portfolio = [], daily_returns = [], daily_values = [], myMetric = None,
      sharpeRatio = None,
      compareMetrics = zip [1, 16, 31] (zip (map Fin [1, 2, 3]) (map Fin (map uminus [1, 2, 3]))),
      correlationCoefficient = None\<rparr> = Inr (NpFloat (Fin (- 1)))"
proof -
  let ?s = "\<lparr>portfolio = [], daily_returns = [], daily_values = [], myMetric = None,
      sharpeRatio = None, compareMetrics = [], correlationCoefficient = None\<rparr>"
  have h1: "[1, 2, 3 :: real] \<noteq> []" by simp
  have h2: "length [1, 16, 31 :: int] = length [1, 2, 3 :: real]" by simp
  have h3: "length [2, 1, 5 :: real] = length [1, 2, 3 :: real]
            \<and> sq_devs [1, 2, 3] * sq_devs [2, 1, 5] \<noteq> 0"
    by (simp add: sq_devs_def mean_def power2_eq_square)
  have h4: "sq_devs [1, 2, 3] \<noteq> 0" by (simp add: sq_devs_def mean_def power2_eq_square)
  note t = correlation_of_identical_and_negated_series [OF h1 h2, of "[2, 1, 5]" ?s]
  from t h3 h4 show ?thesis by simp
qed


text \<open>
  C7 as stated fails when the series 1.0, 1.0, ..., 1.0 is fed twice: on the 54 offsets
  with both columns equal to 1.0 everywhere, every deviation is exactly 0, the division of
  line 203 is 0/0 and the method returns a non-finite double (NaN), not 1.0.
\<close>

theorem constant_identical_series_counterexample:
  "get_correlation_coefficient
     \<lparr>portfolio = [], daily_returns = [], daily_values = [], myMetric = None,
      sharpeRatio = None,
      compareMetrics =
         [(1, Fin 1, Fin 1), (16, Fin 1, Fin 1), (31, Fin 1, Fin 1), (46, Fin 1, Fin 1), (61,
          Fin 1, Fin 1), (76, Fin 1, Fin 1), (91, Fin 1, Fin 1), (106, Fin 1, Fin 1), (121,
          Fin 1, Fin 1), (136, Fin 1, Fin 1), (151, Fin 1, Fin 1), (166, Fin 1, Fin 1), (181,
          Fin 1, Fin 1), (196, Fin 1, Fin 1), (211, Fin 1, Fin 1), (226, Fin 1, Fin 1), (241,
          Fin 1, Fin 1), (256, Fin 1, Fin 1), (271, Fin 1, Fin 1), (286, Fin 1, Fin 1), (301,
          Fin 1, Fin 1), (316, Fin 1, Fin 1), (331, Fin 1, Fin 1), (346, Fin 1, Fin 1), (361,
          Fin 1, Fin 1), (376, Fin 1, Fin 1), (391, Fin 1, Fin 1), (406, Fin 1, Fin 1), (421,
          Fin 1, Fin 1), (436, Fin 1, Fin 1), (451, Fin 1, Fin 1), (466, Fin 1, Fin 1), (481,
          Fin 1, Fin 1), (496, Fin 1, Fin 1), (511, Fin 1, Fin 1), (526, Fin 1, Fin 1), (541,
          Fin 1, Fin 1), (556, Fin 1, Fin 1), (571, Fin 1, Fin 1), (586, Fin 1, Fin 1), (601,
          Fin 1, Fin 1), (616, Fin 1, Fin 1), (631, Fin 1, Fin 1), (646, Fin 1, Fin 1), (661,
          Fin 1, Fin 1), (676, Fin 1, Fin 1), (691, Fin 1, Fin 1), (706, Fin 1, Fin 1), (721,
          Fin 1, Fin 1), (736, Fin 1, Fin 1), (751, Fin 1, Fin 1), (766, Fin 1, Fin 1), (781,
          Fin 1, Fin 1), (796, Fin 1, Fin 1)],
      correlationCoefficient = None\<rparr> = Inr (NpFloat NonFin)"
  by (simp add: get_correlation_coefficient_def series_mean_def math_sqrt_def py_div_def
      wrap_def fl_pow_Fin)






end
